theory Spec2Isabelle
  imports Main "HOL-Library.Word"
begin

section \<open>The native interface, as haiku\_select.cc sees it\<close>

text \<open>
  haiku\_select.cc is a binding layer over the clipboard, message and notification
  classes of the host system. None of those classes is part of the file. Each native
  object is therefore modelled by what the file can observe of it: the answers its member
  functions give (fields named after the member functions), and the list of modifying
  calls the file has made on it so far, oldest first. An answer is left arbitrary; no
  theorem below assumes anything about a native answer that its statement does not spell
  out.
\<close>

type_synonym int32 = "32 word"
type_synonym uint32 = "32 word"
type_synonym int64 = "64 word"
type_synonym intmax_t = "64 word"
type_synonym ssize_t = "64 word"
type_synonym type_code = "32 word"

text \<open>A \<open>float\<close> is only ever copied by the file, so it is kept as its bit pattern.\<close>

type_synonym float = "32 word"

text \<open>
  \<open>status_t\<close>: the file compares a status with \<open>B_OK\<close> and, once, with
  \<open>B_NAME_NOT_FOUND\<close>; \<open>B_ERROR\<close> stands for every other code.
\<close>

datatype status_t = B_OK | B_NAME_NOT_FOUND | B_ERROR

text \<open>The type codes the file names (four-character constants of the host headers).\<close>

definition B_MIME_TYPE :: type_code where
  "B_MIME_TYPE = 0x4D494D53"

definition B_ANY_TYPE :: type_code where
  "B_ANY_TYPE = 0x414E5954"

datatype entry_ref = Entry_ref int32 int64 string

datatype BPoint = BPoint float float

text \<open>
  A native call that is handed a pointer may or may not store through it. \<open>None\<close>: the
  call left the cell alone; \<open>Some v\<close>: it stored \<open>v\<close>.
\<close>

fun stored :: "'a option \<Rightarrow> 'a \<Rightarrow> 'a" where
  "stored None old = old"
| "stored (Some v) old = v"

record GetInfo_reply =
  gi_rc :: status_t
  gi_name :: string
  gi_type :: type_code
  gi_count :: "int32 option"

text \<open>
  \<open>FindData\<close> is handed two pointers: where to put the address of the data (\<open>None\<close>
  inside is the null pointer) and where to put its size.
\<close>

record FindData_reply =
  fd_rc :: status_t
  fd_data :: "string option option"
  fd_numBytes :: "ssize_t option"

datatype message_call =
    ReplaceData_call string type_code string ssize_t
  | AddData_call string type_code "string option" ssize_t
  | RemoveName_call string
  | AddRef_call string entry_ref
  | AddPoint_call string BPoint
  | AddMessage_call string

record BMessage =
  what :: uint32
  GetInfo :: "type_code \<Rightarrow> int32 \<Rightarrow> GetInfo_reply"
  FindRef :: "string \<Rightarrow> int32 \<Rightarrow> status_t \<times> entry_ref"
  FindPoint :: "string \<Rightarrow> int32 \<Rightarrow> status_t \<times> BPoint"
  FindData :: "string \<Rightarrow> type_code \<Rightarrow> int32 \<Rightarrow> FindData_reply"
  ReplaceData :: "string \<Rightarrow> type_code \<Rightarrow> string \<Rightarrow> ssize_t \<Rightarrow> status_t"
  AddData :: "string \<Rightarrow> type_code \<Rightarrow> string option \<Rightarrow> ssize_t \<Rightarrow> status_t"
  AddRef :: "string \<Rightarrow> entry_ref \<Rightarrow> status_t"
  AddPoint :: "string \<Rightarrow> BPoint \<Rightarrow> status_t"
  AddMessage :: "string \<Rightarrow> status_t"
  message_calls :: "message_call list"

datatype clipboard_call =
    Lock_call
  | Unlock_call
  | Clear_call
  | Commit_call
  | Revert_call
  | StartWatching_call
  | Data_call message_call

text \<open>
  A \<open>BClipboard\<close>. \<open>SystemCount\<close> is kept at the width of the \<open>int64\<close> variables the
  file assigns it to. \<open>Data\<close> is the message \<open>Data ()\<close> points to, \<open>None\<close> when it
  returns the null pointer. Calls made on that message while it is reached through the
  clipboard are entered in the clipboard's own list (as \<open>Data_call\<close>), so that their
  order relative to \<open>Lock\<close>, \<open>Clear\<close>, \<open>Commit\<close> and \<open>Unlock\<close> is kept.
\<close>

record BClipboard =
  SystemCount :: int64
  Lock :: bool
  Data :: "BMessage option"
  calls :: "clipboard_call list"

definition call :: "BClipboard \<Rightarrow> clipboard_call \<Rightarrow> BClipboard" where
  "call cb c = cb\<lparr>calls := calls cb @ [c]\<rparr>"

section \<open>The file's own state\<close>

datatype haiku_clipboard = CLIPBOARD_PRIMARY | CLIPBOARD_SECONDARY | CLIPBOARD_CLIPBOARD

datatype notification_type =
  B_INFORMATION_NOTIFICATION | B_IMPORTANT_NOTIFICATION | B_ERROR_NOTIFICATION

type_synonym BBitmap = string

record BNotification =
  Type :: notification_type
  Title :: string
  Content :: string
  MessageID :: string
  Icon :: "BBitmap option"

text \<open>
  The static variables of the file, under their own names, after \<open>be_clipboard_init\<close>
  has made the three clipboard objects (three separate \<open>new BClipboard\<close>, hence three
  separate objects). The last four fields are the surroundings: the calls made to
  \<open>haiku_selection_disowned\<close>, the notifications sent, the team id that
  \<open>my_team_id\<close> reads and the answer of \<open>BTranslationUtils::GetBitmap\<close>.
\<close>

record state =
  primary :: BClipboard
  secondary :: BClipboard
  system_clipboard :: BClipboard
  count_clipboard :: int64
  count_primary :: int64
  count_secondary :: int64
  owned_primary :: bool
  owned_secondary :: bool
  owned_clipboard :: bool
  last_notification_id :: intmax_t
  selection_disowned :: "(haiku_clipboard \<times> int64) list"
  notifications :: "BNotification list"
  team :: int32
  GetBitmap :: "string \<Rightarrow> BBitmap option"

section \<open>Clipboard support\<close>

text \<open>
  \<open>get_clipboard_object\<close>: the \<open>abort ()\<close> after the switch is out of reach for a value
  of the enumeration.
\<close>

fun get_clipboard_object :: "state \<Rightarrow> haiku_clipboard \<Rightarrow> BClipboard" where
  "get_clipboard_object s CLIPBOARD_PRIMARY = primary s"
| "get_clipboard_object s CLIPBOARD_SECONDARY = secondary s"
| "get_clipboard_object s CLIPBOARD_CLIPBOARD = system_clipboard s"

text \<open>
  The file changes a clipboard through the pointer \<open>get_clipboard_object\<close> returns.
  \<open>put_clipboard_object\<close> is that store through the pointer.
\<close>

fun put_clipboard_object :: "state \<Rightarrow> haiku_clipboard \<Rightarrow> BClipboard \<Rightarrow> state" where
  "put_clipboard_object s CLIPBOARD_PRIMARY cb = s\<lparr>primary := cb\<rparr>"
| "put_clipboard_object s CLIPBOARD_SECONDARY cb = s\<lparr>secondary := cb\<rparr>"
| "put_clipboard_object s CLIPBOARD_CLIPBOARD cb = s\<lparr>system_clipboard := cb\<rparr>"

definition be_set_clipboard_data_1 ::
  "BClipboard \<Rightarrow> string \<Rightarrow> string option \<Rightarrow> ssize_t \<Rightarrow> bool \<Rightarrow> BClipboard" where
  "be_set_clipboard_data_1 cb type data len clear =
     (if \<not> Lock cb then call cb Lock_call
      else
        let cb1 = call cb Lock_call;
            cb2 = (if clear then call cb1 Clear_call else cb1)
        in case Data cb2 of
             None \<Rightarrow> call cb2 Unlock_call
           | Some message_data \<Rightarrow>
               let cb3 =
                 (case data of
                    Some d \<Rightarrow>
                      (if ReplaceData message_data type B_MIME_TYPE d len = B_NAME_NOT_FOUND
                       then call (call cb2 (Data_call (ReplaceData_call type B_MIME_TYPE d len)))
                              (Data_call (AddData_call type B_MIME_TYPE (Some d) len))
                       else call cb2 (Data_call (ReplaceData_call type B_MIME_TYPE d len)))
                  | None \<Rightarrow> call cb2 (Data_call (RemoveName_call type)))
               in call (call cb3 Commit_call) Unlock_call)"

fun be_update_clipboard_count :: "state \<Rightarrow> haiku_clipboard \<Rightarrow> state" where
  "be_update_clipboard_count s CLIPBOARD_CLIPBOARD =
     s\<lparr>count_clipboard := SystemCount (system_clipboard s), owned_clipboard := True\<rparr>"
| "be_update_clipboard_count s CLIPBOARD_PRIMARY =
     s\<lparr>count_primary := SystemCount (primary s), owned_primary := True\<rparr>"
| "be_update_clipboard_count s CLIPBOARD_SECONDARY =
     s\<lparr>count_secondary := SystemCount (secondary s), owned_secondary := True\<rparr>"

definition be_set_clipboard_data ::
  "state \<Rightarrow> haiku_clipboard \<Rightarrow> string \<Rightarrow> string option \<Rightarrow> ssize_t \<Rightarrow> bool \<Rightarrow> state" where
  "be_set_clipboard_data s cid type data len clear =
     (let s1 = be_update_clipboard_count s cid
      in put_clipboard_object s1 cid
           (be_set_clipboard_data_1 (get_clipboard_object s1 cid) type data len clear))"

text \<open>
  \<open>int64\<close> is a 64-bit word read in two's complement (\<open>sint\<close>); \<open>count + 1\<close> is the sum
  of the machine, which wraps around at the largest \<open>int64\<close>, the one value at which the
  language leaves the sum open.
\<close>

definition clipboard_owner_p :: "state \<Rightarrow> bool" where
  "clipboard_owner_p s =
     (0 \<le> sint (count_clipboard s)
      \<and> count_clipboard s + 1 = SystemCount (system_clipboard s))"

definition primary_owner_p :: "state \<Rightarrow> bool" where
  "primary_owner_p s =
     (0 \<le> sint (count_primary s)
      \<and> count_primary s + 1 = SystemCount (primary s))"

definition secondary_owner_p :: "state \<Rightarrow> bool" where
  "secondary_owner_p s =
     (0 \<le> sint (count_secondary s)
      \<and> count_secondary s + 1 = SystemCount (secondary s))"

fun be_clipboard_owner_p :: "state \<Rightarrow> haiku_clipboard \<Rightarrow> bool" where
  "be_clipboard_owner_p s CLIPBOARD_PRIMARY = primary_owner_p s"
| "be_clipboard_owner_p s CLIPBOARD_SECONDARY = secondary_owner_p s"
| "be_clipboard_owner_p s CLIPBOARD_CLIPBOARD = clipboard_owner_p s"

definition be_selection_outdated_p :: "state \<Rightarrow> haiku_clipboard \<Rightarrow> int64 \<Rightarrow> bool" where
  "be_selection_outdated_p s cid count =
     (if cid = CLIPBOARD_CLIPBOARD \<and> sint count < sint (count_clipboard s) then True
      else if cid = CLIPBOARD_PRIMARY \<and> sint count < sint (count_primary s) then True
      else if cid = CLIPBOARD_SECONDARY \<and> sint count < sint (count_secondary s) then True
      else False)"

definition be_get_clipboard_count :: "state \<Rightarrow> haiku_clipboard \<Rightarrow> int64" where
  "be_get_clipboard_count s cid = SystemCount (get_clipboard_object s cid)"

text \<open>
  The ways the process can die inside the file: \<open>abort ()\<close>, and a copy through a null
  pointer.
\<close>

datatype fault = Abort | Segmentation_fault

text \<open>
  \<open>be_find_clipboard_data_1\<close>. The locals \<open>ptr\<close> and \<open>nbytes\<close> are not initialised
  before \<open>FindData\<close> is handed their addresses and the status \<open>FindData\<close> returns is
  dropped: the test of \<open>ptr\<close> that follows reads what \<open>FindData\<close> stored there, or,
  had it stored nothing, the first contents of the local (\<open>locals\<close>). \<open>len\<close> is the cell
  behind the pointer of that name, \<open>None\<close> for a null pointer. \<open>malloc_ok\<close> tells
  whether \<open>malloc\<close> returns memory; the test after \<open>malloc\<close> looks at \<open>data\<close>, which is
  not null at that point, so a failed \<open>malloc\<close> goes on to \<open>memcpy\<close>.
\<close>

definition be_find_clipboard_data_1 ::
  "BClipboard \<Rightarrow> string \<Rightarrow> ssize_t option \<Rightarrow> string option \<times> ssize_t \<Rightarrow> bool
     \<Rightarrow> fault + (string option \<times> ssize_t option \<times> BClipboard)" where
  "be_find_clipboard_data_1 cb type len locals malloc_ok =
     (if \<not> Lock cb then Inr (None, len, call cb Lock_call)
      else
        let cb1 = call cb Lock_call
        in case Data cb1 of
             None \<Rightarrow> Inr (None, len, call cb1 Unlock_call)
           | Some data \<Rightarrow>
               let r = FindData data type B_MIME_TYPE 0;
                   ptr = stored (fd_data r) (fst locals);
                   nbytes = stored (fd_numBytes r) (snd locals)
               in case ptr of
                    None \<Rightarrow> Inr (None, len, call cb1 Unlock_call)
                  | Some p \<Rightarrow>
                      let len1 = (case len of None \<Rightarrow> None | Some _ \<Rightarrow> Some nbytes)
                      in if \<not> malloc_ok then Inl Segmentation_fault
                         else Inr (Some (take (unat nbytes) p), len1, call cb1 Unlock_call))"

definition be_find_clipboard_data ::
  "state \<Rightarrow> haiku_clipboard \<Rightarrow> string \<Rightarrow> ssize_t option \<Rightarrow> string option \<times> ssize_t \<Rightarrow> bool
     \<Rightarrow> fault + (string option \<times> ssize_t option \<times> state)" where
  "be_find_clipboard_data s cid type len locals malloc_ok =
     (case be_find_clipboard_data_1 (get_clipboard_object s cid) type len locals malloc_ok of
        Inl f \<Rightarrow> Inl f
      | Inr (res, len1, cb) \<Rightarrow> Inr (res, len1, put_clipboard_object s cid cb))"

text \<open>
  \<open>be_lock_clipboard_message\<close>: \<open>message_return\<close> is the cell behind the pointer of that
  name.
\<close>

definition be_lock_clipboard_message ::
  "state \<Rightarrow> haiku_clipboard \<Rightarrow> BMessage option \<Rightarrow> bool \<Rightarrow> int \<times> BMessage option \<times> state" where
  "be_lock_clipboard_message s clipboard message_return clear =
     (let board = get_clipboard_object s clipboard
      in if \<not> Lock board
         then (1, message_return, put_clipboard_object s clipboard (call board Lock_call))
         else
           let board1 = call board Lock_call;
               board2 = (if clear then call board1 Clear_call else board1)
           in (0, Data board2, put_clipboard_object s clipboard board2))"

definition be_unlock_clipboard :: "state \<Rightarrow> haiku_clipboard \<Rightarrow> bool \<Rightarrow> state" where
  "be_unlock_clipboard s clipboard discard =
     (let board = get_clipboard_object s clipboard;
          board1 = (if discard then call board Revert_call else call board Commit_call)
      in put_clipboard_object s clipboard (call board1 Unlock_call))"

text \<open>
  Modelled from the spec: \<open>haiku_selection_disowned\<close> is declared in haikuselect.h and
  defined outside haiku\_select.cc. The specification says nothing of what it does, so
  the call is entered, with its two arguments, in the list \<open>selection_disowned\<close> and has
  no other effect.
\<close>

definition haiku_selection_disowned :: "state \<Rightarrow> haiku_clipboard \<Rightarrow> int64 \<Rightarrow> state" where
  "haiku_selection_disowned s cid count =
     s\<lparr>selection_disowned := selection_disowned s @ [(cid, count)]\<rparr>"

definition be_handle_clipboard_changed_message :: "state \<Rightarrow> state" where
  "be_handle_clipboard_changed_message s =
     (let n_clipboard = SystemCount (system_clipboard s);
          n_primary = SystemCount (primary s);
          n_secondary = SystemCount (secondary s);
          s1 = (if count_clipboard s \<noteq> - 1
                   \<and> sint (count_clipboard s + 1) < sint n_clipboard
                   \<and> owned_clipboard s
                then haiku_selection_disowned (s\<lparr>owned_clipboard := False\<rparr>)
                       CLIPBOARD_CLIPBOARD n_clipboard
                else s);
          s2 = (if count_primary s1 \<noteq> - 1
                   \<and> sint (count_primary s1 + 1) < sint n_primary
                   \<and> owned_primary s1
                then haiku_selection_disowned (s1\<lparr>owned_primary := False\<rparr>)
                       CLIPBOARD_PRIMARY n_primary
                else s1);
          s3 = (if count_secondary s2 \<noteq> - 1
                   \<and> sint (count_secondary s2 + 1) < sint n_secondary
                   \<and> owned_secondary s2
                then haiku_selection_disowned (s2\<lparr>owned_secondary := False\<rparr>)
                       CLIPBOARD_SECONDARY n_secondary
                else s2)
      in s3)"

definition be_start_watching_selection :: "state \<Rightarrow> haiku_clipboard \<Rightarrow> state" where
  "be_start_watching_selection s cid =
     (let clipboard = get_clipboard_object s cid
      in put_clipboard_object s cid (call clipboard StartWatching_call))"

section \<open>Messages\<close>

text \<open>
  In the accessors below a pointer parameter that the caller reads afterwards is a cell:
  the function takes the cell's contents at the call and returns its contents at the
  return, next to the \<open>int\<close> the function returns. A pointer the file passes on to a
  native call holds afterwards what that call stored (\<open>stored\<close>).
  \<open>be_get_message_message\<close> and \<open>be_create_simple_message\<close>, which make new messages,
  are not among the functions the statements below speak of and are left out.
\<close>

definition be_enum_message ::
  "BMessage \<Rightarrow> int32 \<Rightarrow> int32 \<Rightarrow> int32 \<Rightarrow> string \<Rightarrow> int \<times> int32 \<times> int32 \<times> string" where
  "be_enum_message msg tc index count name_return =
     (let r = GetInfo msg B_ANY_TYPE index;
          count1 = stored (gi_count r) count
      in if gi_rc r \<noteq> B_OK then (1, tc, count1, name_return)
         else (0, gi_type r, count1, gi_name r))"

text \<open>
  The storage kit, as far as the file asks it: \<open>SetTo\<close> and \<open>GetPath\<close> of a \<open>BEntry\<close>
  made from a reference, and \<open>InitCheck\<close> and \<open>GetRef\<close> of a \<open>BEntry\<close> made from a file
  name. In \<open>be_get_refs_data\<close> the copy \<open>strdup\<close> makes of the path is the path.
\<close>

record storage =
  SetTo :: "entry_ref \<Rightarrow> status_t"
  GetPath :: "entry_ref \<Rightarrow> status_t \<times> string"
  InitCheck :: "string \<Rightarrow> status_t"
  GetRef :: "string \<Rightarrow> status_t \<times> entry_ref"

definition be_get_refs_data ::
  "storage \<Rightarrow> BMessage \<Rightarrow> string \<Rightarrow> int32 \<Rightarrow> string \<Rightarrow> int \<times> string" where
  "be_get_refs_data fs msg name index path_buffer =
     (case FindRef msg name index of
        (rc, ref) \<Rightarrow>
          if rc \<noteq> B_OK then (1, path_buffer)
          else if SetTo fs ref \<noteq> B_OK then (1, path_buffer)
          else (case GetPath fs ref of
                  (rc2, path) \<Rightarrow>
                    if rc2 \<noteq> B_OK then (1, path_buffer)
                    else (0, path)))"

definition be_get_point_data ::
  "BMessage \<Rightarrow> string \<Rightarrow> int32 \<Rightarrow> float \<Rightarrow> float \<Rightarrow> int \<times> float \<times> float" where
  "be_get_point_data msg name index x y =
     (case FindPoint msg name index of
        (rc, BPoint px py) \<Rightarrow>
          if rc \<noteq> B_OK then (1, x, y)
          else (0, px, py))"

definition be_get_message_data ::
  "BMessage \<Rightarrow> string \<Rightarrow> int32 \<Rightarrow> int32 \<Rightarrow> string option \<Rightarrow> ssize_t
     \<Rightarrow> int \<times> string option \<times> ssize_t" where
  "be_get_message_data msg name type_code index buf_return size_return =
     (let r = FindData msg name type_code index
      in (if fd_rc r \<noteq> B_OK then 1 else 0,
          stored (fd_data r) buf_return,
          stored (fd_numBytes r) size_return))"

definition be_get_message_type :: "BMessage \<Rightarrow> uint32" where
  "be_get_message_type msg = what msg"

definition be_set_message_type :: "BMessage \<Rightarrow> uint32 \<Rightarrow> BMessage" where
  "be_set_message_type msg w = msg\<lparr>what := w\<rparr>"

definition message_call :: "BMessage \<Rightarrow> message_call \<Rightarrow> BMessage" where
  "message_call msg c = msg\<lparr>message_calls := message_calls msg @ [c]\<rparr>"

definition be_add_message_data ::
  "BMessage \<Rightarrow> string \<Rightarrow> int32 \<Rightarrow> string option \<Rightarrow> ssize_t \<Rightarrow> int \<times> BMessage" where
  "be_add_message_data msg name type_code buf buf_size =
     (if AddData msg name type_code buf buf_size \<noteq> B_OK then 1 else 0,
      message_call msg (AddData_call name type_code buf buf_size))"

definition be_add_refs_data ::
  "storage \<Rightarrow> BMessage \<Rightarrow> string \<Rightarrow> string \<Rightarrow> int \<times> BMessage" where
  "be_add_refs_data fs msg name filename =
     (if InitCheck fs filename \<noteq> B_OK then (1, msg)
      else (case GetRef fs filename of
              (rc, ref) \<Rightarrow>
                if rc \<noteq> B_OK then (1, msg)
                else (if AddRef msg name ref \<noteq> B_OK then 1 else 0,
                      message_call msg (AddRef_call name ref))))"

definition be_add_point_data ::
  "BMessage \<Rightarrow> string \<Rightarrow> float \<Rightarrow> float \<Rightarrow> int \<times> BMessage" where
  "be_add_point_data msg name x y =
     (if AddPoint msg name (BPoint x y) \<noteq> B_OK then 1 else 0,
      message_call msg (AddPoint_call name (BPoint x y)))"

text \<open>
  \<open>be_add_message_message\<close>: the message added, \<open>data\<close>, is passed on untouched; the
  answer of \<open>AddMessage\<close> is taken per name.
\<close>

definition be_add_message_message ::
  "BMessage \<Rightarrow> string \<Rightarrow> BMessage \<Rightarrow> int \<times> BMessage" where
  "be_add_message_message msg name data =
     (if AddMessage msg name \<noteq> B_OK then (1, message_call msg (AddMessage_call name))
      else (0, message_call msg (AddMessage_call name)))"

section \<open>Notifications\<close>

fun type_for_type :: "int32 \<Rightarrow> fault + notification_type" where
  "type_for_type type =
     (if type = 0 then Inr B_INFORMATION_NOTIFICATION
      else if type = 1 then Inr B_IMPORTANT_NOTIFICATION
      else if type = 2 then Inr B_ERROR_NOTIFICATION
      else Inl Abort)"

definition my_team_id :: "state \<Rightarrow> int32" where
  "my_team_id s = team s"

text \<open>\<open>sprintf\<close> with the format \<open>%d.%jd\<close>: two signed numbers in decimal.\<close>

function decimal :: "nat \<Rightarrow> string" where
  "decimal n =
     (if n < 10 then [char_of (48 + n)]
      else decimal (n div 10) @ [char_of (48 + n mod 10)])"
  by pat_completeness auto
termination
  by (relation "measure (\<lambda>n. n)") auto

declare decimal.simps [simp del]

definition signed_decimal :: "int \<Rightarrow> string" where
  "signed_decimal i = (if i < 0 then CHR ''-'' # decimal (nat (- i)) else decimal (nat i))"

definition sprintf_id :: "int32 \<Rightarrow> intmax_t \<Rightarrow> string" where
  "sprintf_id t i = signed_decimal (sint t) @ ''.'' @ signed_decimal (sint i)"

text \<open>
  \<open>be_display_notification\<close>. \<open>ckd_add\<close> stores the sum wrapped to the width of
  \<open>intmax_t\<close> and reports the overflow in its result, which the file drops.
\<close>

definition be_display_notification ::
  "state \<Rightarrow> string \<Rightarrow> string \<Rightarrow> intmax_t \<Rightarrow> int32 \<Rightarrow> string option
     \<Rightarrow> fault + (intmax_t \<times> state)" where
  "be_display_notification s title body supersedes type icon =
     (case type_for_type type of
        Inl f \<Rightarrow> Inl f
      | Inr t \<Rightarrow>
          let notification =
                \<lparr>Type = t, Title = [], Content = [], MessageID = [], Icon = None\<rparr>;
              s1 = (if sint supersedes < 0
                    then s\<lparr>last_notification_id := last_notification_id s + 1\<rparr>
                    else s);
              ident = (if sint supersedes < 0 then last_notification_id s1 else supersedes);
              notification1 = notification\<lparr>Title := title, Content := body\<rparr>;
              buffer = sprintf_id (my_team_id s1) ident;
              notification2 = notification1\<lparr>MessageID := buffer\<rparr>;
              notification3 =
                (case icon of
                   None \<Rightarrow> notification2
                 | Some file \<Rightarrow>
                     (case GetBitmap s1 file of
                        None \<Rightarrow> notification2
                      | Some bitmap \<Rightarrow> notification2\<lparr>Icon := Some bitmap\<rparr>))
          in Inr (ident, s1\<lparr>notifications := notifications s1 @ [notification3]\<rparr>))"

section \<open>Runs of the program\<close>

text \<open>
  What can happen to the state: a call of one of the functions of the file that read or
  write it, or a change on the native side (\<open>Native\<close>), which gives one clipboard new
  answers and leaves the list of calls made on it as it is. The system count belongs to
  the native side: a new count that follows a commit of the program itself is such a
  change too. The message accessors take no part in the state and are left out.
\<close>

datatype event =
    Update_clipboard_count haiku_clipboard
  | Find_clipboard_data haiku_clipboard string "ssize_t option" "string option \<times> ssize_t" bool
  | Set_clipboard_data haiku_clipboard string "string option" ssize_t bool
  | Clipboard_owner_p haiku_clipboard
  | Lock_clipboard_message haiku_clipboard "BMessage option" bool
  | Unlock_clipboard haiku_clipboard bool
  | Handle_clipboard_changed_message
  | Start_watching_selection haiku_clipboard
  | Selection_outdated_p haiku_clipboard int64
  | Get_clipboard_count haiku_clipboard
  | Display_notification string string intmax_t int32 "string option"
  | Native haiku_clipboard int64 bool "BMessage option"

definition native :: "state \<Rightarrow> haiku_clipboard \<Rightarrow> int64 \<Rightarrow> bool \<Rightarrow> BMessage option \<Rightarrow> state" where
  "native s cid n l d =
     put_clipboard_object s cid
       ((get_clipboard_object s cid)\<lparr>SystemCount := n, Lock := l, Data := d\<rparr>)"

fun step :: "state \<Rightarrow> event \<Rightarrow> fault + state" where
  "step s (Update_clipboard_count cid) = Inr (be_update_clipboard_count s cid)"
| "step s (Find_clipboard_data cid type len locals malloc_ok) =
     (case be_find_clipboard_data s cid type len locals malloc_ok of
        Inl f \<Rightarrow> Inl f
      | Inr (res, len1, s1) \<Rightarrow> Inr s1)"
| "step s (Set_clipboard_data cid type data len clear) =
     Inr (be_set_clipboard_data s cid type data len clear)"
| "step s (Clipboard_owner_p cid) = Inr s"
| "step s (Lock_clipboard_message cid message_return clear) =
     Inr (snd (snd (be_lock_clipboard_message s cid message_return clear)))"
| "step s (Unlock_clipboard cid discard) = Inr (be_unlock_clipboard s cid discard)"
| "step s Handle_clipboard_changed_message = Inr (be_handle_clipboard_changed_message s)"
| "step s (Start_watching_selection cid) = Inr (be_start_watching_selection s cid)"
| "step s (Selection_outdated_p cid count) = Inr s"
| "step s (Get_clipboard_count cid) = Inr s"
| "step s (Display_notification title body supersedes type icon) =
     (case be_display_notification s title body supersedes type icon of
        Inl f \<Rightarrow> Inl f
      | Inr (ident, s1) \<Rightarrow> Inr s1)"
| "step s (Native cid n l d) = Inr (native s cid n l d)"

text \<open>
  The states a run passes through, the first one included. A run ends with its list of
  events, or earlier when the process dies.
\<close>

fun states :: "state \<Rightarrow> event list \<Rightarrow> state list" where
  "states s [] = [s]"
| "states s (e # es) =
     s # (case step s e of Inl f \<Rightarrow> [] | Inr s1 \<Rightarrow> states s1 es)"

text \<open>
  The state the program starts in: the counters at \<open>-1\<close>, the other statics of the file
  zero, nothing yet sent.
\<close>

definition initial_state ::
  "BClipboard \<Rightarrow> BClipboard \<Rightarrow> BClipboard \<Rightarrow> int32 \<Rightarrow> (string \<Rightarrow> BBitmap option) \<Rightarrow> state" where
  "initial_state p sec sys t bitmaps =
     \<lparr>primary = p, secondary = sec, system_clipboard = sys,
      count_clipboard = - 1, count_primary = - 1, count_secondary = - 1,
      owned_primary = False, owned_secondary = False, owned_clipboard = False,
      last_notification_id = 0, selection_disowned = [], notifications = [],
      team = t, GetBitmap = bitmaps\<rparr>"

section \<open>Reading the state per clipboard\<close>

text \<open>
  The statements below speak of ``the stored change counter for a clipboard'' and ``the
  owned flag for a clipboard''. The file has no such function: it keeps three variables of
  each kind. These two pick the variable that belongs to a clipboard.
\<close>

fun stored_count :: "state \<Rightarrow> haiku_clipboard \<Rightarrow> int64" where
  "stored_count s CLIPBOARD_PRIMARY = count_primary s"
| "stored_count s CLIPBOARD_SECONDARY = count_secondary s"
| "stored_count s CLIPBOARD_CLIPBOARD = count_clipboard s"

fun owned :: "state \<Rightarrow> haiku_clipboard \<Rightarrow> bool" where
  "owned s CLIPBOARD_PRIMARY = owned_primary s"
| "owned s CLIPBOARD_SECONDARY = owned_secondary s"
| "owned s CLIPBOARD_CLIPBOARD = owned_clipboard s"

section \<open>The words of the statements\<close>

text \<open>
  ``Another program has changed the clipboard'', in the words used for
  \<open>be_handle_clipboard_changed_message\<close>: the stored counter is not \<open>-1\<close>, the owned flag
  is set, and the native system count lies strictly above the stored counter plus one.
\<close>

definition externally_changed :: "state \<Rightarrow> haiku_clipboard \<Rightarrow> bool" where
  "externally_changed s cid =
     (stored_count s cid \<noteq> - 1 \<and> owned s cid
      \<and> sint (stored_count s cid + 1) < sint (SystemCount (get_clipboard_object s cid)))"

text \<open>
  The events that store a fresh counter for clipboard \<open>c\<close>: \<open>be_update_clipboard_count\<close>
  for \<open>c\<close>, and \<open>be_set_clipboard_data\<close> for \<open>c\<close>, which calls it.
\<close>

fun updates_count :: "event \<Rightarrow> haiku_clipboard \<Rightarrow> bool" where
  "updates_count (Update_clipboard_count cid) c = (c = cid)"
| "updates_count (Set_clipboard_data cid type data len clear) c = (c = cid)"
| "updates_count e c = False"

text \<open>
  ``The native system count never decreases'': no native change in the run puts a system
  count below the one it replaces.
\<close>

fun keeps_system_count :: "state \<Rightarrow> event \<Rightarrow> bool" where
  "keeps_system_count s (Native cid n l d) =
     (sint (SystemCount (get_clipboard_object s cid)) \<le> sint n)"
| "keeps_system_count s e = True"

fun never_decreases :: "state \<Rightarrow> event list \<Rightarrow> bool" where
  "never_decreases s [] = True"
| "never_decreases s (e # es) =
     (keeps_system_count s e
      \<and> (case step s e of Inl f \<Rightarrow> True | Inr s1 \<Rightarrow> never_decreases s1 es))"

text \<open>
  Calls of \<open>be_display_notification\<close> made one after the other, each with its arguments
  (title, body, supersedes, type, icon); the identifiers they return, in order.
\<close>

type_synonym notify_call = "string \<times> string \<times> intmax_t \<times> int32 \<times> string option"

fun be_display_notifications ::
  "state \<Rightarrow> notify_call list \<Rightarrow> fault + (intmax_t list \<times> state)" where
  "be_display_notifications s [] = Inr ([], s)"
| "be_display_notifications s ((title, body, supersedes, type, icon) # cs) =
     (case be_display_notification s title body supersedes type icon of
        Inl f \<Rightarrow> Inl f
      | Inr (i, s1) \<Rightarrow>
          (case be_display_notifications s1 cs of
             Inl f \<Rightarrow> Inl f
           | Inr (ids, s2) \<Rightarrow> Inr (i # ids, s2)))"

fun supersedes_of :: "notify_call \<Rightarrow> intmax_t" where
  "supersedes_of (title, body, supersedes, type, icon) = supersedes"

fun type_of :: "notify_call \<Rightarrow> int32" where
  "type_of (title, body, supersedes, type, icon) = type"

text \<open>
  The identifiers returned to the calls that passed a negative \<open>supersedes\<close>, and the
  number of such calls.
\<close>

fun allocated :: "notify_call list \<Rightarrow> intmax_t list \<Rightarrow> intmax_t list" where
  "allocated (c # cs) (i # ids) =
     (if sint (supersedes_of c) < 0 then i # allocated cs ids else allocated cs ids)"
| "allocated cs ids = []"

definition fresh_calls :: "notify_call list \<Rightarrow> nat" where
  "fresh_calls cs = length (filter (\<lambda>c. sint (supersedes_of c) < 0) cs)"

text \<open>
  The notification \<open>be_display_notification\<close> sends for a type among 0, 1 and 2 and the
  identifier \<open>ident\<close>.
\<close>

definition sent :: "state \<Rightarrow> string \<Rightarrow> string \<Rightarrow> int32 \<Rightarrow> string option \<Rightarrow> intmax_t \<Rightarrow> BNotification" where
  "sent s title body type icon ident =
     \<lparr>Type = (if type = 0 then B_INFORMATION_NOTIFICATION
              else if type = 1 then B_IMPORTANT_NOTIFICATION else B_ERROR_NOTIFICATION),
      Title = title, Content = body, MessageID = sprintf_id (team s) ident,
      Icon = (case icon of None \<Rightarrow> None | Some file \<Rightarrow> GetBitmap s file)\<rparr>"

section \<open>A concrete state\<close>

text \<open>
  A message without fields: nothing is found in it, everything can be added to it. Asked
  for data that is not there, \<open>FindData\<close> stores the null pointer where the address was
  to go, which is what \<open>be_find_clipboard_data_1\<close> tests for.
\<close>

definition empty_message :: BMessage where
  "empty_message =
     \<lparr>what = 0,
      GetInfo = (\<lambda>t i. \<lparr>gi_rc = B_ERROR, gi_name = [], gi_type = 0, gi_count = None\<rparr>),
      FindRef = (\<lambda>n i. (B_NAME_NOT_FOUND, Entry_ref 0 0 [])),
      FindPoint = (\<lambda>n i. (B_NAME_NOT_FOUND, BPoint 0 0)),
      FindData = (\<lambda>n t i. \<lparr>fd_rc = B_NAME_NOT_FOUND, fd_data = Some None, fd_numBytes = None\<rparr>),
      ReplaceData = (\<lambda>n t d l. B_NAME_NOT_FOUND),
      AddData = (\<lambda>n t d l. B_OK),
      AddRef = (\<lambda>n r. B_OK),
      AddPoint = (\<lambda>n p. B_OK),
      AddMessage = (\<lambda>n. B_OK),
      message_calls = []\<rparr>"

definition fresh_clipboard :: "int64 \<Rightarrow> BClipboard" where
  "fresh_clipboard n = \<lparr>SystemCount = n, Lock = True, Data = Some empty_message, calls = []\<rparr>"

text \<open>
  The program at its start, with system counts 3, 5 and 7 for the primary selection, the
  secondary selection and the clipboard.
\<close>

definition example_state :: state where
  "example_state =
     initial_state (fresh_clipboard 3) (fresh_clipboard 5) (fresh_clipboard 7) 42 (\<lambda>f. None)"

text \<open>
  The program has stored counters for the primary selection (3) and the clipboard (7);
  then another program changed the primary selection twice, so that its system count
  is 5.
\<close>

definition taken_over :: state where
  "taken_over =
     native (be_update_clipboard_count
               (be_update_clipboard_count example_state CLIPBOARD_PRIMARY) CLIPBOARD_CLIPBOARD)
       CLIPBOARD_PRIMARY 5 True None"

text \<open>The program at its start, with a primary selection that refuses to be locked.\<close>

definition locked_out :: state where
  "locked_out = native example_state CLIPBOARD_PRIMARY 3 False None"

text \<open>The same, with a primary selection that can be locked and has no data message.\<close>

definition no_message :: state where
  "no_message = native example_state CLIPBOARD_PRIMARY 3 True None"

text \<open>
  Two runs: one in which the primary selection changes and is then claimed again, and one
  that never stores a counter for the clipboard.
\<close>

definition example_run :: "event list" where
  "example_run =
     [Native CLIPBOARD_PRIMARY 4 True None,
      Update_clipboard_count CLIPBOARD_PRIMARY,
      Handle_clipboard_changed_message]"

definition other_run :: "event list" where
  "other_run =
     [Update_clipboard_count CLIPBOARD_PRIMARY,
      Native CLIPBOARD_CLIPBOARD 9 True None,
      Set_clipboard_data CLIPBOARD_SECONDARY ''text/plain'' (Some ''hello'') 5 False,
      Handle_clipboard_changed_message]"

text \<open>Three notifications: a new one, one that replaces it, and another new one.\<close>

definition example_calls :: "notify_call list" where
  "example_calls =
     [(''Mail'', ''One new message'', - 1, 0, None),
      (''Mail'', ''Two new messages'', 1, 1, None),
      (''Build'', ''Failed'', - 1, 2, None)]"

text \<open>
  A message that holds one piece of text, one file reference and one point, and a storage
  kit that knows one file.
\<close>

definition text_message :: BMessage where
  "text_message =
     empty_message
       \<lparr>GetInfo := (\<lambda>t i. \<lparr>gi_rc = B_OK, gi_name = ''text/plain'', gi_type = B_MIME_TYPE,
                             gi_count = Some 1\<rparr>),
        FindRef := (\<lambda>n i. (B_OK, Entry_ref 2 7 ''notes'')),
        FindPoint := (\<lambda>n i. (B_OK, BPoint 10 20)),
        FindData := (\<lambda>n t i. \<lparr>fd_rc = B_OK, fd_data = Some (Some ''hello''),
                                fd_numBytes = Some 5\<rparr>)\<rparr>"

definition example_storage :: storage where
  "example_storage =
     \<lparr>SetTo = (\<lambda>r. B_OK),
      GetPath = (\<lambda>r. (B_OK, ''/boot/home/notes'')),
      InitCheck = (\<lambda>f. B_OK),
      GetRef = (\<lambda>f. if f = ''/boot/home/notes'' then (B_OK, Entry_ref 2 7 ''notes'')
                      else (B_ERROR, Entry_ref 0 0 []))\<rparr>"

section \<open>What each function leaves alone\<close>

lemma get_put_same [simp]:
  "get_clipboard_object (put_clipboard_object s cid cb) cid = cb"
  by (cases cid) simp_all

lemma get_put_other [simp]:
  "c \<noteq> cid \<Longrightarrow> get_clipboard_object (put_clipboard_object s cid cb) c = get_clipboard_object s c"
  by (cases cid; cases c) simp_all

lemma put_fields [simp]:
  "stored_count (put_clipboard_object s cid cb) c = stored_count s c"
  "owned (put_clipboard_object s cid cb) c = owned s c"
  "selection_disowned (put_clipboard_object s cid cb) = selection_disowned s"
  "last_notification_id (put_clipboard_object s cid cb) = last_notification_id s"
  "notifications (put_clipboard_object s cid cb) = notifications s"
  by (cases cid; cases c; simp)+

lemma call_fields [simp]:
  "SystemCount (call cb c) = SystemCount cb"
  "Lock (call cb c) = Lock cb"
  "Data (call cb c) = Data cb"
  "calls (call cb c) = calls cb @ [c]"
  by (simp_all add: call_def)

lemma update_fields [simp]:
  "stored_count (be_update_clipboard_count s cid) c =
     (if c = cid then SystemCount (get_clipboard_object s cid) else stored_count s c)"
  "owned (be_update_clipboard_count s cid) c = (c = cid \<or> owned s c)"
  "get_clipboard_object (be_update_clipboard_count s cid) c = get_clipboard_object s c"
  "selection_disowned (be_update_clipboard_count s cid) = selection_disowned s"
  "last_notification_id (be_update_clipboard_count s cid) = last_notification_id s"
  by (cases cid; cases c; simp)+

lemma set_1_answers [simp]:
  "SystemCount (be_set_clipboard_data_1 cb type data len clear) = SystemCount cb"
  "Lock (be_set_clipboard_data_1 cb type data len clear) = Lock cb"
  "Data (be_set_clipboard_data_1 cb type data len clear) = Data cb"
  by (simp_all add: be_set_clipboard_data_1_def Let_def split: option.splits)

lemma set_1_calls:
  "calls (be_set_clipboard_data_1 cb type data len clear) =
     calls cb @
     (if \<not> Lock cb then [Lock_call]
      else Lock_call # (if clear then [Clear_call] else []) @
        (case Data cb of
           None \<Rightarrow> [Unlock_call]
         | Some m \<Rightarrow>
             (case data of
                Some d \<Rightarrow>
                  Data_call (ReplaceData_call type B_MIME_TYPE d len) #
                  (if ReplaceData m type B_MIME_TYPE d len = B_NAME_NOT_FOUND
                   then [Data_call (AddData_call type B_MIME_TYPE (Some d) len)] else [])
              | None \<Rightarrow> [Data_call (RemoveName_call type)])
             @ [Commit_call, Unlock_call]))"
  by (simp add: be_set_clipboard_data_1_def Let_def split: option.splits)

lemma set_fields [simp]:
  "stored_count (be_set_clipboard_data s cid type data len clear) c =
     (if c = cid then SystemCount (get_clipboard_object s cid) else stored_count s c)"
  "owned (be_set_clipboard_data s cid type data len clear) c = (c = cid \<or> owned s c)"
  "selection_disowned (be_set_clipboard_data s cid type data len clear) = selection_disowned s"
  "last_notification_id (be_set_clipboard_data s cid type data len clear) = last_notification_id s"
  by (simp_all add: be_set_clipboard_data_def Let_def)

lemma set_object:
  "get_clipboard_object (be_set_clipboard_data s cid type data len clear) c =
     (if c = cid then be_set_clipboard_data_1 (get_clipboard_object s cid) type data len clear
      else get_clipboard_object s c)"
  by (simp add: be_set_clipboard_data_def Let_def)

lemma handle_fields:
  "stored_count (be_handle_clipboard_changed_message s) c = stored_count s c"
  "get_clipboard_object (be_handle_clipboard_changed_message s) c = get_clipboard_object s c"
  "last_notification_id (be_handle_clipboard_changed_message s) = last_notification_id s"
  by (cases c; simp add: be_handle_clipboard_changed_message_def Let_def haiku_selection_disowned_def)+

lemma handle_owned:
  "owned (be_handle_clipboard_changed_message s) c = (owned s c \<and> \<not> externally_changed s c)"
  by (cases c; auto simp add: be_handle_clipboard_changed_message_def Let_def haiku_selection_disowned_def externally_changed_def)

lemma handle_disowned:
  "selection_disowned (be_handle_clipboard_changed_message s) =
     selection_disowned s @
     map (\<lambda>c. (c, SystemCount (get_clipboard_object s c)))
       (filter (externally_changed s) [CLIPBOARD_CLIPBOARD, CLIPBOARD_PRIMARY, CLIPBOARD_SECONDARY])"
  by (simp add: be_handle_clipboard_changed_message_def Let_def haiku_selection_disowned_def externally_changed_def)

lemma find_1_cases:
  "be_find_clipboard_data_1 cb type len locals malloc_ok = Inr (res, len1, cb1) \<Longrightarrow>
     SystemCount cb1 = SystemCount cb \<and> Lock cb1 = Lock cb \<and> Data cb1 = Data cb
     \<and> (calls cb1 = calls cb @ [Lock_call] \<or> calls cb1 = calls cb @ [Lock_call, Unlock_call])"
  by (auto simp: be_find_clipboard_data_1_def Let_def split: if_splits option.splits)

lemma find_fields:
  assumes "be_find_clipboard_data s cid type len locals malloc_ok = Inr (res, len1, s1)"
  shows "stored_count s1 c = stored_count s c"
    and "owned s1 c = owned s c"
    and "selection_disowned s1 = selection_disowned s"
    and "last_notification_id s1 = last_notification_id s"
    and "c \<noteq> cid \<Longrightarrow> get_clipboard_object s1 c = get_clipboard_object s c"
    and "SystemCount (get_clipboard_object s1 c) = SystemCount (get_clipboard_object s c)"
proof -
  from assms obtain cb1 where
    f: "be_find_clipboard_data_1 (get_clipboard_object s cid) type len locals malloc_ok
          = Inr (res, len1, cb1)"
    and s1: "s1 = put_clipboard_object s cid cb1"
    by (auto simp: be_find_clipboard_data_def split: sum.splits)
  show "stored_count s1 c = stored_count s c" "owned s1 c = owned s c"
    "selection_disowned s1 = selection_disowned s"
    "last_notification_id s1 = last_notification_id s"
    by (simp_all add: s1)
  show "c \<noteq> cid \<Longrightarrow> get_clipboard_object s1 c = get_clipboard_object s c"
    by (simp add: s1)
  show "SystemCount (get_clipboard_object s1 c) = SystemCount (get_clipboard_object s c)"
    using find_1_cases [OF f] by (cases "c = cid") (simp_all add: s1)
qed

lemma lock_fields [simp]:
  "stored_count (snd (snd (be_lock_clipboard_message s cid m clear))) c = stored_count s c"
  "owned (snd (snd (be_lock_clipboard_message s cid m clear))) c = owned s c"
  "selection_disowned (snd (snd (be_lock_clipboard_message s cid m clear))) = selection_disowned s"
  "last_notification_id (snd (snd (be_lock_clipboard_message s cid m clear))) = last_notification_id s"
  "c \<noteq> cid \<Longrightarrow> get_clipboard_object (snd (snd (be_lock_clipboard_message s cid m clear))) c
     = get_clipboard_object s c"
  "SystemCount (get_clipboard_object (snd (snd (be_lock_clipboard_message s cid m clear))) c)
     = SystemCount (get_clipboard_object s c)"
  by (cases "c = cid"; simp add: be_lock_clipboard_message_def Let_def)+

lemma unlock_fields [simp]:
  "stored_count (be_unlock_clipboard s cid discard) c = stored_count s c"
  "owned (be_unlock_clipboard s cid discard) c = owned s c"
  "selection_disowned (be_unlock_clipboard s cid discard) = selection_disowned s"
  "last_notification_id (be_unlock_clipboard s cid discard) = last_notification_id s"
  "c \<noteq> cid \<Longrightarrow> get_clipboard_object (be_unlock_clipboard s cid discard) c
     = get_clipboard_object s c"
  "SystemCount (get_clipboard_object (be_unlock_clipboard s cid discard) c)
     = SystemCount (get_clipboard_object s c)"
  by (cases "c = cid"; simp add: be_unlock_clipboard_def Let_def)+

lemma watch_fields [simp]:
  "stored_count (be_start_watching_selection s cid) c = stored_count s c"
  "owned (be_start_watching_selection s cid) c = owned s c"
  "selection_disowned (be_start_watching_selection s cid) = selection_disowned s"
  "last_notification_id (be_start_watching_selection s cid) = last_notification_id s"
  "c \<noteq> cid \<Longrightarrow> get_clipboard_object (be_start_watching_selection s cid) c
     = get_clipboard_object s c"
  "SystemCount (get_clipboard_object (be_start_watching_selection s cid) c)
     = SystemCount (get_clipboard_object s c)"
  by (cases "c = cid"; simp add: be_start_watching_selection_def Let_def)+

lemma native_fields [simp]:
  "stored_count (native s cid n l d) c = stored_count s c"
  "owned (native s cid n l d) c = owned s c"
  "selection_disowned (native s cid n l d) = selection_disowned s"
  "last_notification_id (native s cid n l d) = last_notification_id s"
  "c \<noteq> cid \<Longrightarrow> get_clipboard_object (native s cid n l d) c = get_clipboard_object s c"
  "SystemCount (get_clipboard_object (native s cid n l d) c)
     = (if c = cid then n else SystemCount (get_clipboard_object s c))"
  by (cases "c = cid"; simp add: native_def)+

lemma display_fields:
  assumes "be_display_notification s title body supersedes type icon = Inr (ident, s1)"
  shows "stored_count s1 c = stored_count s c"
    and "owned s1 c = owned s c"
    and "selection_disowned s1 = selection_disowned s"
    and "get_clipboard_object s1 c = get_clipboard_object s c"
  using assms
  by (cases c; auto simp: be_display_notification_def Let_def split: sum.splits if_splits)+

lemma set_system_count [simp]:
  "SystemCount (get_clipboard_object (be_set_clipboard_data s cid type data len clear) c)
     = SystemCount (get_clipboard_object s c)"
  by (simp add: set_object)

lemma step_stored_count:
  assumes "step s e = Inr s1"
  shows "stored_count s1 c =
           (if updates_count e c then SystemCount (get_clipboard_object s c)
            else stored_count s c)"
  using assms
  by (cases e)
    (auto simp: handle_fields find_fields display_fields split: sum.splits prod.splits)

lemma step_owned:
  assumes "step s e = Inr s1" "\<not> updates_count e c" "owned s1 c"
  shows "owned s c"
  using assms
  by (cases e)
    (auto simp: handle_owned find_fields display_fields split: sum.splits prod.splits)

lemma step_system_count:
  assumes "step s e = Inr s1" "keeps_system_count s e"
  shows "sint (SystemCount (get_clipboard_object s c))
           \<le> sint (SystemCount (get_clipboard_object s1 c))"
  using assms
  by (cases e)
    (auto simp: handle_fields find_fields display_fields split: sum.splits prod.splits)

lemma handle_disowned_mem:
  "(c, n) \<in> set (selection_disowned (be_handle_clipboard_changed_message s)) \<longleftrightarrow>
     (c, n) \<in> set (selection_disowned s)
     \<or> (externally_changed s c \<and> n = SystemCount (get_clipboard_object s c))"
  unfolding handle_disowned by (cases c) auto

lemma step_disowned:
  assumes "step s e = Inr s1" "(c, n) \<in> set (selection_disowned s1)"
  shows "(c, n) \<in> set (selection_disowned s) \<or> externally_changed s c"
  using assms
  by (cases e)
    (auto simp: handle_disowned_mem find_fields display_fields split: sum.splits prod.splits)

section \<open>Invariants of runs\<close>

lemma states_nonempty [simp]: "states s es \<noteq> []"
  by (cases es) simp_all

lemma states_first: "s \<in> set (states s es)"
  by (cases es) simp_all

lemma states_later:
  assumes "s1 \<in> set (states s (e # es))" "s1 \<noteq> s"
  obtains s2 where "step s e = Inr s2" "s1 \<in> set (states s2 es)"
  using assms by (cases "step s e") auto

lemma states_stored_count:
  assumes "sint (stored_count s c) \<le> sint (SystemCount (get_clipboard_object s c))"
    and "never_decreases s es"
    and "s1 \<in> set (states s es)"
  shows "sint (stored_count s c) \<le> sint (stored_count s1 c)
         \<and> sint (stored_count s1 c) \<le> sint (SystemCount (get_clipboard_object s1 c))"
  using assms
proof (induction es arbitrary: s)
  case Nil
  then show ?case by simp
next
  case (Cons e es)
  show ?case
  proof (cases "s1 = s")
    case True
    then show ?thesis using Cons.prems(1) by simp
  next
    case False
    obtain s2 where st: "step s e = Inr s2" and mem: "s1 \<in> set (states s2 es)"
      using states_later [OF Cons.prems(3) False] by blast
    have keep: "keeps_system_count s e" and nd: "never_decreases s2 es"
      using Cons.prems(2) st by simp_all
    have sys: "sint (SystemCount (get_clipboard_object s c))
                 \<le> sint (SystemCount (get_clipboard_object s2 c))"
      using step_system_count [OF st keep] .
    have up: "sint (stored_count s c) \<le> sint (stored_count s2 c)"
      using step_stored_count [OF st, of c] Cons.prems(1) by simp
    have inv: "sint (stored_count s2 c) \<le> sint (SystemCount (get_clipboard_object s2 c))"
      using step_stored_count [OF st, of c] Cons.prems(1) sys by simp
    from Cons.IH [OF inv nd mem] up show ?thesis by simp
  qed
qed

lemma states_sorted:
  assumes "sint (stored_count s c) \<le> sint (SystemCount (get_clipboard_object s c))"
    and "never_decreases s es"
  shows "sorted_wrt (\<lambda>a b. sint (stored_count a c) \<le> sint (stored_count b c)) (states s es)"
  using assms
proof (induction es arbitrary: s)
  case Nil
  then show ?case by simp
next
  case (Cons e es)
  show ?case
  proof (cases "step s e")
    case (Inl f)
    then show ?thesis by simp
  next
    case (Inr s2)
    have keep: "keeps_system_count s e" and nd: "never_decreases s2 es"
      using Cons.prems(2) Inr by simp_all
    have sys: "sint (SystemCount (get_clipboard_object s c))
                 \<le> sint (SystemCount (get_clipboard_object s2 c))"
      using step_system_count [OF Inr keep] .
    have up: "sint (stored_count s c) \<le> sint (stored_count s2 c)"
      using step_stored_count [OF Inr, of c] Cons.prems(1) by simp
    have inv: "sint (stored_count s2 c) \<le> sint (SystemCount (get_clipboard_object s2 c))"
      using step_stored_count [OF Inr, of c] Cons.prems(1) sys by simp
    have later: "\<forall>s1\<in>set (states s2 es). sint (stored_count s c) \<le> sint (stored_count s1 c)"
      using states_stored_count [OF inv nd] up by fastforce
    show ?thesis
      using Inr later Cons.IH [OF inv nd] by simp
  qed
qed

lemma states_untouched:
  assumes "\<forall>e\<in>set es. \<not> updates_count e c"
    and "stored_count s c = - 1" "\<not> owned s c"
    and "\<forall>n. (c, n) \<notin> set (selection_disowned s)"
    and "s1 \<in> set (states s es)"
  shows "stored_count s1 c = - 1 \<and> \<not> owned s1 c \<and> (\<forall>n. (c, n) \<notin> set (selection_disowned s1))"
  using assms
proof (induction es arbitrary: s)
  case Nil
  then show ?case by simp
next
  case (Cons e es)
  show ?case
  proof (cases "s1 = s")
    case True
    then show ?thesis using Cons.prems by simp
  next
    case False
    obtain s2 where st: "step s e = Inr s2" and mem: "s1 \<in> set (states s2 es)"
      using states_later [OF Cons.prems(5) False] by blast
    have e: "\<not> updates_count e c" and rest: "\<forall>e\<in>set es. \<not> updates_count e c"
      using Cons.prems(1) by simp_all
    have c2: "stored_count s2 c = - 1"
      using step_stored_count [OF st, of c] e Cons.prems(2) by simp
    have o2: "\<not> owned s2 c"
      using step_owned [OF st e] Cons.prems(3) by blast
    have "\<not> externally_changed s c"
      using Cons.prems(2) by (simp add: externally_changed_def)
    then have d2: "\<forall>n. (c, n) \<notin> set (selection_disowned s2)"
      using step_disowned [OF st] Cons.prems(4) by blast
    from Cons.IH [OF rest c2 o2 d2 mem] show ?thesis .
  qed
qed

section \<open>Identifiers of notifications\<close>

lemma sint_plus_one:
  fixes c :: int64
  assumes "sint c < 2 ^ 63 - 1"
  shows "sint (c + 1) = sint c + 1"
proof -
  have lo: "- (2 ^ 63) \<le> sint c"
    using sint_ge [of c] by simp
  have "sint (c + 1) = signed_take_bit 63 (sint c + 1)"
    by (simp add: sint_word_ariths)
  also have "\<dots> = sint c + 1"
    using lo assms by (intro signed_take_bit_int_eq_self) auto
  finally show ?thesis .
qed

lemma display_supersedes:
  assumes "type = 0 \<or> type = 1 \<or> type = 2" "0 \<le> sint supersedes"
  shows "be_display_notification s title body supersedes type icon =
           Inr (supersedes,
                s\<lparr>notifications := notifications s @ [sent s title body type icon supersedes]\<rparr>)"
  using assms
  by (auto simp: be_display_notification_def sent_def my_team_id_def Let_def split: option.splits)

lemma display_fresh:
  assumes "type = 0 \<or> type = 1 \<or> type = 2" "sint supersedes < 0"
  shows "be_display_notification s title body supersedes type icon =
           Inr (last_notification_id s + 1,
                s\<lparr>last_notification_id := last_notification_id s + 1,
                  notifications := notifications s
                    @ [sent s title body type icon (last_notification_id s + 1)]\<rparr>)"
  using assms
  by (auto simp: be_display_notification_def sent_def my_team_id_def Let_def split: option.splits)

lemma display_abort:
  assumes "\<not> (type = 0 \<or> type = 1 \<or> type = 2)"
  shows "be_display_notification s title body supersedes type icon = Inl Abort"
  using assms by (simp add: be_display_notification_def)

lemma display_all:
  assumes "\<forall>c\<in>set cs. type_of c = 0 \<or> type_of c = 1 \<or> type_of c = 2"
    and "sint (last_notification_id s) + int (fresh_calls cs) < 2 ^ 63"
  shows "\<exists>ids s1. be_display_notifications s cs = Inr (ids, s1)
           \<and> length ids = length cs
           \<and> sint (last_notification_id s1) = sint (last_notification_id s) + int (fresh_calls cs)
           \<and> (\<forall>i\<in>set (allocated cs ids). sint (last_notification_id s) < sint i)
           \<and> sorted_wrt (\<lambda>a b. sint a < sint b) (allocated cs ids)"
  using assms
proof (induction cs arbitrary: s)
  case Nil
  then show ?case by (simp add: fresh_calls_def)
next
  case (Cons c cs)
  obtain title body supersedes type icon where c: "c = (title, body, supersedes, type, icon)"
    by (cases c) auto
  have ty: "type = 0 \<or> type = 1 \<or> type = 2"
    using Cons.prems(1) c by simp
  have rest: "\<forall>c\<in>set cs. type_of c = 0 \<or> type_of c = 1 \<or> type_of c = 2"
    using Cons.prems(1) by simp
  show ?case
  proof (cases "sint supersedes < 0")
    case True
    let ?s1 = "s\<lparr>last_notification_id := last_notification_id s + 1,
                  notifications := notifications s
                    @ [sent s title body type icon (last_notification_id s + 1)]\<rparr>"
    have fc: "fresh_calls (c # cs) = Suc (fresh_calls cs)"
      using True c by (simp add: fresh_calls_def)
    have small: "sint (last_notification_id s) < 2 ^ 63 - 1"
      using Cons.prems(2) fc by simp
    have inc: "sint (last_notification_id s + 1) = sint (last_notification_id s) + 1"
      using small by (rule sint_plus_one)
    have bound: "sint (last_notification_id ?s1) + int (fresh_calls cs) < 2 ^ 63"
      using Cons.prems(2) fc inc by simp
    from Cons.IH [OF rest bound] obtain ids s2 where
      run: "be_display_notifications ?s1 cs = Inr (ids, s2)"
      and len: "length ids = length cs"
      and fin: "sint (last_notification_id s2) = sint (last_notification_id ?s1) + int (fresh_calls cs)"
      and above: "\<forall>i\<in>set (allocated cs ids). sint (last_notification_id ?s1) < sint i"
      and srt: "sorted_wrt (\<lambda>a b. sint a < sint b) (allocated cs ids)"
      by blast
    have r1: "be_display_notifications s (c # cs) = Inr ((last_notification_id s + 1) # ids, s2)"
      using run display_fresh [OF ty True] c by simp
    have a1: "allocated (c # cs) ((last_notification_id s + 1) # ids)
                = (last_notification_id s + 1) # allocated cs ids"
      using True c by simp
    have f1: "sint (last_notification_id s2)
                = sint (last_notification_id s) + int (fresh_calls (c # cs))"
      using fin inc fc by simp
    have b1: "\<forall>i\<in>set (allocated cs ids). sint (last_notification_id s + 1) < sint i"
      using above by simp
    have b2: "\<forall>i\<in>set (allocated (c # cs) ((last_notification_id s + 1) # ids)).
                sint (last_notification_id s) < sint i"
      unfolding a1 using b1 inc by auto
    have s1: "sorted_wrt (\<lambda>a b. sint a < sint b)
                (allocated (c # cs) ((last_notification_id s + 1) # ids))"
      unfolding a1 using b1 srt by simp
    show ?thesis
      using r1 len f1 b2 s1 by simp
  next
    case False
    let ?s1 = "s\<lparr>notifications := notifications s @ [sent s title body type icon supersedes]\<rparr>"
    have fc: "fresh_calls (c # cs) = fresh_calls cs"
      using False c by (simp add: fresh_calls_def)
    have bound: "sint (last_notification_id ?s1) + int (fresh_calls cs) < 2 ^ 63"
      using Cons.prems(2) fc by simp
    from Cons.IH [OF rest bound] obtain ids s2 where
      run: "be_display_notifications ?s1 cs = Inr (ids, s2)"
      and len: "length ids = length cs"
      and fin: "sint (last_notification_id s2) = sint (last_notification_id ?s1) + int (fresh_calls cs)"
      and above: "\<forall>i\<in>set (allocated cs ids). sint (last_notification_id ?s1) < sint i"
      and srt: "sorted_wrt (\<lambda>a b. sint a < sint b) (allocated cs ids)"
      by blast
    have r1: "be_display_notifications s (c # cs) = Inr (supersedes # ids, s2)"
      using run display_supersedes [OF ty] False c by simp
    have a1: "allocated (c # cs) (supersedes # ids) = allocated cs ids"
      using False c by simp
    have f1: "sint (last_notification_id s2)
                = sint (last_notification_id s) + int (fresh_calls (c # cs))"
      using fin fc by simp
    have b2: "\<forall>i\<in>set (allocated (c # cs) (supersedes # ids)).
                sint (last_notification_id s) < sint i"
      unfolding a1 using above by simp
    have s1: "sorted_wrt (\<lambda>a b. sint a < sint b) (allocated (c # cs) (supersedes # ids))"
      unfolding a1 using srt by simp
    show ?thesis
      using r1 len f1 b2 s1 by simp
  qed
qed

section \<open>Ownership of a clipboard\<close>

text \<open>
  C1: for every clipboard identifier, \<open>be_clipboard_owner_p\<close> is true exactly when the
  stored change counter of that clipboard is not negative and the native system count of
  that clipboard equals the stored counter plus one. Nothing else enters the decision. The
  sum is the sum of the machine; whenever the stored counter is below the largest
  \<open>int64\<close>, it is the sum of the two integers as well.
\<close>

theorem be_clipboard_owner_p_iff:
  "(be_clipboard_owner_p s cid \<longleftrightarrow>
      0 \<le> sint (stored_count s cid)
      \<and> SystemCount (get_clipboard_object s cid) = stored_count s cid + 1)
   \<and> (sint (stored_count s cid) < 2 ^ 63 - 1 \<longrightarrow>
        (be_clipboard_owner_p s cid \<longleftrightarrow>
           0 \<le> sint (stored_count s cid)
           \<and> sint (SystemCount (get_clipboard_object s cid)) = sint (stored_count s cid) + 1))"
proof -
  have word: "be_clipboard_owner_p s cid \<longleftrightarrow>
      0 \<le> sint (stored_count s cid)
      \<and> SystemCount (get_clipboard_object s cid) = stored_count s cid + 1"
    by (cases cid)
      (auto simp: primary_owner_p_def secondary_owner_p_def clipboard_owner_p_def)
  have "SystemCount (get_clipboard_object s cid) = stored_count s cid + 1 \<longleftrightarrow>
          sint (SystemCount (get_clipboard_object s cid)) = sint (stored_count s cid) + 1"
    if "sint (stored_count s cid) < 2 ^ 63 - 1"
    using sint_plus_one [OF that] by (metis signed_word_eqI)
  with word show ?thesis by blast
qed

theorem be_clipboard_owner_p_example:
  "be_clipboard_owner_p
     (native (be_update_clipboard_count example_state CLIPBOARD_PRIMARY)
        CLIPBOARD_PRIMARY 4 True None) CLIPBOARD_PRIMARY
   \<and> \<not> be_clipboard_owner_p
     (native (be_update_clipboard_count example_state CLIPBOARD_PRIMARY)
        CLIPBOARD_PRIMARY 5 True None) CLIPBOARD_PRIMARY"
  using
    be_clipboard_owner_p_iff [of "native (be_update_clipboard_count example_state CLIPBOARD_PRIMARY)
        CLIPBOARD_PRIMARY 4 True None" CLIPBOARD_PRIMARY]
    be_clipboard_owner_p_iff [of "native (be_update_clipboard_count example_state CLIPBOARD_PRIMARY)
        CLIPBOARD_PRIMARY 5 True None" CLIPBOARD_PRIMARY]
  by (simp add: example_state_def initial_state_def fresh_clipboard_def native_def)

text \<open>
  C6: for every clipboard identifier and every count, \<open>be_selection_outdated_p\<close> is true
  exactly when the stored change counter of that clipboard is strictly greater than the
  count.
\<close>

theorem be_selection_outdated_p_iff:
  "be_selection_outdated_p s cid count \<longleftrightarrow> sint count < sint (stored_count s cid)"
  by (cases cid) (simp_all add: be_selection_outdated_p_def)

theorem be_selection_outdated_p_example:
  "be_selection_outdated_p (be_update_clipboard_count example_state CLIPBOARD_SECONDARY)
     CLIPBOARD_SECONDARY 4
   \<and> \<not> be_selection_outdated_p (be_update_clipboard_count example_state CLIPBOARD_SECONDARY)
     CLIPBOARD_SECONDARY 5"
  using
    be_selection_outdated_p_iff [of "be_update_clipboard_count example_state CLIPBOARD_SECONDARY"
      CLIPBOARD_SECONDARY 4]
    be_selection_outdated_p_iff [of "be_update_clipboard_count example_state CLIPBOARD_SECONDARY"
      CLIPBOARD_SECONDARY 5]
  by (simp add: example_state_def initial_state_def fresh_clipboard_def native_def)

text \<open>
  C2: \<open>be_handle_clipboard_changed_message\<close> disowns a selection, that is, clears its
  owned flag and calls \<open>haiku_selection_disowned\<close> with the system count it has just read,
  exactly when the stored counter of the selection is not \<open>-1\<close>, its owned flag is set
  and the system count is strictly above the stored counter plus one
  (\<open>externally_changed\<close>). The calls are made for the clipboard, the primary and the
  secondary selection in this order. A system count equal to the stored counter plus one,
  which is what the program's own change leaves behind, never disowns. As in C1 the sum
  is the machine's, and is the sum of the integers below the largest \<open>int64\<close>.
\<close>

theorem be_handle_clipboard_changed_message_disowns:
  "owned (be_handle_clipboard_changed_message s) cid
     = (owned s cid \<and> \<not> externally_changed s cid)
   \<and> selection_disowned (be_handle_clipboard_changed_message s) =
       selection_disowned s @
       map (\<lambda>c. (c, SystemCount (get_clipboard_object s c)))
         (filter (externally_changed s)
            [CLIPBOARD_CLIPBOARD, CLIPBOARD_PRIMARY, CLIPBOARD_SECONDARY])
   \<and> (SystemCount (get_clipboard_object s cid) = stored_count s cid + 1 \<longrightarrow>
        \<not> externally_changed s cid
        \<and> owned (be_handle_clipboard_changed_message s) cid = owned s cid)
   \<and> (sint (stored_count s cid) < 2 ^ 63 - 1 \<longrightarrow>
        (externally_changed s cid \<longleftrightarrow>
           stored_count s cid \<noteq> - 1 \<and> owned s cid
           \<and> sint (stored_count s cid) + 1 < sint (SystemCount (get_clipboard_object s cid))))"
proof -
  have own: "SystemCount (get_clipboard_object s cid) = stored_count s cid + 1 \<Longrightarrow>
               \<not> externally_changed s cid"
    by (simp add: externally_changed_def)
  have int: "sint (stored_count s cid) < 2 ^ 63 - 1 \<Longrightarrow>
        (externally_changed s cid \<longleftrightarrow>
           stored_count s cid \<noteq> - 1 \<and> owned s cid
           \<and> sint (stored_count s cid) + 1 < sint (SystemCount (get_clipboard_object s cid)))"
    by (simp add: externally_changed_def sint_plus_one)
  show ?thesis
    using own int by (simp add: handle_owned handle_disowned)
qed

theorem be_handle_clipboard_changed_message_example:
  "\<not> owned (be_handle_clipboard_changed_message taken_over) CLIPBOARD_PRIMARY
   \<and> owned (be_handle_clipboard_changed_message taken_over) CLIPBOARD_CLIPBOARD
   \<and> selection_disowned (be_handle_clipboard_changed_message taken_over)
       = [(CLIPBOARD_PRIMARY, 5)]"
  using
    be_handle_clipboard_changed_message_disowns [of taken_over CLIPBOARD_PRIMARY]
    be_handle_clipboard_changed_message_disowns [of taken_over CLIPBOARD_CLIPBOARD]
  by (simp add: taken_over_def externally_changed_def example_state_def initial_state_def native_def
      fresh_clipboard_def)

section \<open>Writing to a clipboard\<close>

text \<open>
  C3, as it is stated, promises the write for every call. The function gives up when
  \<open>Lock\<close> is refused: on a primary selection that refuses the lock, a call with data
  that is not null and with \<open>clear\<close> set makes the one call \<open>Lock\<close> on the object and
  nothing else; nothing is cleared, replaced, added or committed.
\<close>

theorem be_set_clipboard_data_refused_lock:
  "calls (get_clipboard_object
     (be_set_clipboard_data locked_out CLIPBOARD_PRIMARY ''text/plain'' (Some ''hello'') 5 True)
     CLIPBOARD_PRIMARY) = [Lock_call]"
proof -
  have l: "\<not> Lock (get_clipboard_object locked_out CLIPBOARD_PRIMARY)"
    and c: "calls (get_clipboard_object locked_out CLIPBOARD_PRIMARY) = []"
    by (simp_all add: locked_out_def native_def example_state_def initial_state_def
        fresh_clipboard_def)
  show ?thesis
    unfolding set_object using l c by (simp add: set_1_calls)
qed

text \<open>
  C3, amended: for every clipboard identifier, \<open>be_set_clipboard_data\<close> writes to the
  clipboard object that \<open>get_clipboard_object\<close> selects, and to no other. When the
  clipboard lets itself be locked and has a data message, the calls made on it are, in
  this order: \<open>Lock\<close>; \<open>Clear\<close> if \<open>clear\<close> is set; then, for data that is not null,
  \<open>ReplaceData\<close> under the name \<open>type\<close>, followed by \<open>AddData\<close> when \<open>ReplaceData\<close>
  answered that there is no such name, and for null data \<open>RemoveName\<close>; then \<open>Commit\<close>;
  then \<open>Unlock\<close>.
\<close>

theorem be_set_clipboard_data_writes:
  assumes "Lock (get_clipboard_object s cid)"
    and "Data (get_clipboard_object s cid) = Some m"
  shows "calls (get_clipboard_object (be_set_clipboard_data s cid type data len clear) cid) =
           calls (get_clipboard_object s cid)
           @ [Lock_call]
           @ (if clear then [Clear_call] else [])
           @ (case data of
                Some d \<Rightarrow>
                  Data_call (ReplaceData_call type B_MIME_TYPE d len) #
                  (if ReplaceData m type B_MIME_TYPE d len = B_NAME_NOT_FOUND
                   then [Data_call (AddData_call type B_MIME_TYPE (Some d) len)]
                   else [])
              | None \<Rightarrow> [Data_call (RemoveName_call type)])
           @ [Commit_call, Unlock_call]
         \<and> (\<forall>c. c \<noteq> cid \<longrightarrow>
               get_clipboard_object (be_set_clipboard_data s cid type data len clear) c
                 = get_clipboard_object s c)"
  using assms by (simp add: set_object set_1_calls)

theorem be_set_clipboard_data_example:
  "Lock (get_clipboard_object example_state CLIPBOARD_CLIPBOARD)
   \<and> Data (get_clipboard_object example_state CLIPBOARD_CLIPBOARD) = Some empty_message
   \<and> calls (get_clipboard_object
        (be_set_clipboard_data example_state CLIPBOARD_CLIPBOARD ''text/plain''
           (Some ''hello'') 5 True) CLIPBOARD_CLIPBOARD) =
       [Lock_call, Clear_call,
        Data_call (ReplaceData_call ''text/plain'' B_MIME_TYPE ''hello'' 5),
        Data_call (AddData_call ''text/plain'' B_MIME_TYPE (Some ''hello'') 5),
        Commit_call, Unlock_call]
   \<and> calls (get_clipboard_object
        (be_set_clipboard_data example_state CLIPBOARD_CLIPBOARD ''text/plain''
           None 0 False) CLIPBOARD_CLIPBOARD) =
       [Lock_call, Data_call (RemoveName_call ''text/plain''), Commit_call, Unlock_call]"
proof -
  have l: "Lock (get_clipboard_object example_state CLIPBOARD_CLIPBOARD)"
    and d: "Data (get_clipboard_object example_state CLIPBOARD_CLIPBOARD) = Some empty_message"
    and c: "calls (get_clipboard_object example_state CLIPBOARD_CLIPBOARD) = []"
    by (simp_all add: example_state_def initial_state_def fresh_clipboard_def)
  have r: "ReplaceData empty_message ''text/plain'' B_MIME_TYPE ''hello'' 5 = B_NAME_NOT_FOUND"
    by (simp add: empty_message_def)
  show ?thesis
    using be_set_clipboard_data_writes [OF l d, of "''text/plain''" "Some ''hello''" 5 True]
      be_set_clipboard_data_writes [OF l d, of "''text/plain''" None 0 False] l d c r
    by simp
qed

text \<open>
  C9: \<open>be_set_clipboard_data\<close> first stores the counter and sets the owned flag of the
  selected clipboard and only then goes to the clipboard object; the state it leaves is
  the state after \<open>be_update_clipboard_count\<close> with nothing but that object changed. So the
  counter is stored and the flag is set whatever becomes of the write. When the lock is
  refused the only call made on the object is that \<open>Lock\<close>; when there is no data message
  the calls are \<open>Lock\<close>, \<open>Clear\<close> if asked for, and \<open>Unlock\<close>: nothing is replaced, added,
  removed or committed.
\<close>

theorem be_set_clipboard_data_owns_first:
  "be_set_clipboard_data s cid type data len clear =
     put_clipboard_object (be_update_clipboard_count s cid) cid
       (be_set_clipboard_data_1 (get_clipboard_object s cid) type data len clear)
   \<and> stored_count (be_set_clipboard_data s cid type data len clear) cid
       = SystemCount (get_clipboard_object s cid)
   \<and> owned (be_set_clipboard_data s cid type data len clear) cid
   \<and> (\<not> Lock (get_clipboard_object s cid) \<longrightarrow>
        calls (get_clipboard_object (be_set_clipboard_data s cid type data len clear) cid)
          = calls (get_clipboard_object s cid) @ [Lock_call])
   \<and> (Lock (get_clipboard_object s cid) \<and> Data (get_clipboard_object s cid) = None \<longrightarrow>
        calls (get_clipboard_object (be_set_clipboard_data s cid type data len clear) cid)
          = calls (get_clipboard_object s cid)
            @ [Lock_call] @ (if clear then [Clear_call] else []) @ [Unlock_call])"
proof -
  have "be_set_clipboard_data s cid type data len clear =
     put_clipboard_object (be_update_clipboard_count s cid) cid
       (be_set_clipboard_data_1 (get_clipboard_object s cid) type data len clear)"
    by (simp add: be_set_clipboard_data_def Let_def)
  then show ?thesis
    by (simp add: set_object set_1_calls)
qed

theorem be_set_clipboard_data_not_atomic:
  "\<not> Lock (get_clipboard_object locked_out CLIPBOARD_PRIMARY)
   \<and> \<not> owned locked_out CLIPBOARD_PRIMARY
   \<and> owned (be_set_clipboard_data locked_out CLIPBOARD_PRIMARY ''text/plain''
        (Some ''hello'') 5 False) CLIPBOARD_PRIMARY
   \<and> stored_count (be_set_clipboard_data locked_out CLIPBOARD_PRIMARY ''text/plain''
        (Some ''hello'') 5 False) CLIPBOARD_PRIMARY = 3
   \<and> calls (get_clipboard_object (be_set_clipboard_data locked_out CLIPBOARD_PRIMARY
        ''text/plain'' (Some ''hello'') 5 False) CLIPBOARD_PRIMARY) = [Lock_call]
   \<and> Lock (get_clipboard_object no_message CLIPBOARD_PRIMARY)
   \<and> Data (get_clipboard_object no_message CLIPBOARD_PRIMARY) = None
   \<and> owned (be_set_clipboard_data no_message CLIPBOARD_PRIMARY ''text/plain''
        (Some ''hello'') 5 True) CLIPBOARD_PRIMARY
   \<and> calls (get_clipboard_object (be_set_clipboard_data no_message CLIPBOARD_PRIMARY
        ''text/plain'' (Some ''hello'') 5 True) CLIPBOARD_PRIMARY)
       = [Lock_call, Clear_call, Unlock_call]"
proof -
  have l: "\<not> Lock (get_clipboard_object locked_out CLIPBOARD_PRIMARY)"
    and o: "\<not> owned locked_out CLIPBOARD_PRIMARY"
    and n: "SystemCount (get_clipboard_object locked_out CLIPBOARD_PRIMARY) = 3"
    and c: "calls (get_clipboard_object locked_out CLIPBOARD_PRIMARY) = []"
    by (simp_all add: locked_out_def native_def example_state_def initial_state_def
        fresh_clipboard_def)
  have l2: "Lock (get_clipboard_object no_message CLIPBOARD_PRIMARY)"
    and d2: "Data (get_clipboard_object no_message CLIPBOARD_PRIMARY) = None"
    and c2: "calls (get_clipboard_object no_message CLIPBOARD_PRIMARY) = []"
    by (simp_all add: no_message_def native_def example_state_def initial_state_def
        fresh_clipboard_def)
  have refused: "owned (be_set_clipboard_data locked_out CLIPBOARD_PRIMARY ''text/plain''
        (Some ''hello'') 5 False) CLIPBOARD_PRIMARY
   \<and> stored_count (be_set_clipboard_data locked_out CLIPBOARD_PRIMARY ''text/plain''
        (Some ''hello'') 5 False) CLIPBOARD_PRIMARY = 3
   \<and> calls (get_clipboard_object (be_set_clipboard_data locked_out CLIPBOARD_PRIMARY
        ''text/plain'' (Some ''hello'') 5 False) CLIPBOARD_PRIMARY) = [Lock_call]"
    using be_set_clipboard_data_owns_first [THEN conjunct2, of locked_out CLIPBOARD_PRIMARY
        "''text/plain''" "Some ''hello''" 5 False] l n c
    by simp
  have empty: "owned (be_set_clipboard_data no_message CLIPBOARD_PRIMARY ''text/plain''
        (Some ''hello'') 5 True) CLIPBOARD_PRIMARY
   \<and> calls (get_clipboard_object (be_set_clipboard_data no_message CLIPBOARD_PRIMARY
        ''text/plain'' (Some ''hello'') 5 True) CLIPBOARD_PRIMARY)
       = [Lock_call, Clear_call, Unlock_call]"
    using be_set_clipboard_data_owns_first [THEN conjunct2, of no_message CLIPBOARD_PRIMARY
        "''text/plain''" "Some ''hello''" 5 True] l2 d2 c2
    by simp
  show ?thesis
    using l o l2 d2 refused empty by blast
qed

text \<open>
  C8: the three clipboards are kept apart. For a clipboard \<open>c\<close> other than the one named
  in the call, every function of the file that takes a clipboard identifier leaves the
  object of \<open>c\<close> as it was, and \<open>be_update_clipboard_count\<close> and \<open>be_set_clipboard_data\<close>
  leave the stored counter and the owned flag of \<open>c\<close> as they were. What the reading
  functions return depends on the state only through the object of the clipboard named
  (and, for \<open>be_clipboard_owner_p\<close>, its stored counter).
\<close>

theorem clipboards_disjoint:
  assumes "c \<noteq> cid"
  shows "get_clipboard_object (put_clipboard_object s cid cb) c = get_clipboard_object s c
    \<and> get_clipboard_object (be_update_clipboard_count s cid) c = get_clipboard_object s c
    \<and> stored_count (be_update_clipboard_count s cid) c = stored_count s c
    \<and> owned (be_update_clipboard_count s cid) c = owned s c
    \<and> get_clipboard_object (be_set_clipboard_data s cid type data len clear) c
        = get_clipboard_object s c
    \<and> stored_count (be_set_clipboard_data s cid type data len clear) c = stored_count s c
    \<and> owned (be_set_clipboard_data s cid type data len clear) c = owned s c
    \<and> get_clipboard_object (snd (snd (be_lock_clipboard_message s cid m clear))) c
        = get_clipboard_object s c
    \<and> get_clipboard_object (be_unlock_clipboard s cid discard) c = get_clipboard_object s c
    \<and> get_clipboard_object (be_start_watching_selection s cid) c = get_clipboard_object s c
    \<and> (\<forall>res len1 s1.
          be_find_clipboard_data s cid type len2 locals malloc_ok = Inr (res, len1, s1) \<longrightarrow>
          get_clipboard_object s1 c = get_clipboard_object s c)
    \<and> (get_clipboard_object s2 cid = get_clipboard_object s cid \<longrightarrow>
          be_get_clipboard_count s2 cid = be_get_clipboard_count s cid
          \<and> fst (be_lock_clipboard_message s2 cid m clear)
              = fst (be_lock_clipboard_message s cid m clear)
          \<and> fst (snd (be_lock_clipboard_message s2 cid m clear))
              = fst (snd (be_lock_clipboard_message s cid m clear))
          \<and> map_sum id (\<lambda>(res, len1, s1). (res, len1))
                (be_find_clipboard_data s2 cid type len2 locals malloc_ok)
              = map_sum id (\<lambda>(res, len1, s1). (res, len1))
                  (be_find_clipboard_data s cid type len2 locals malloc_ok)
          \<and> (stored_count s2 cid = stored_count s cid \<longrightarrow>
                be_clipboard_owner_p s2 cid = be_clipboard_owner_p s cid))"
proof -
  have find: "\<forall>res len1 s1.
          be_find_clipboard_data s cid type len2 locals malloc_ok = Inr (res, len1, s1) \<longrightarrow>
          get_clipboard_object s1 c = get_clipboard_object s c"
    using assms find_fields(5) by blast
  have same: "be_get_clipboard_count s2 cid = be_get_clipboard_count s cid
          \<and> fst (be_lock_clipboard_message s2 cid m clear)
              = fst (be_lock_clipboard_message s cid m clear)
          \<and> fst (snd (be_lock_clipboard_message s2 cid m clear))
              = fst (snd (be_lock_clipboard_message s cid m clear))
          \<and> map_sum id (\<lambda>(res, len1, s1). (res, len1))
                (be_find_clipboard_data s2 cid type len2 locals malloc_ok)
              = map_sum id (\<lambda>(res, len1, s1). (res, len1))
                  (be_find_clipboard_data s cid type len2 locals malloc_ok)"
    if "get_clipboard_object s2 cid = get_clipboard_object s cid"
    using that
    by (auto simp: be_get_clipboard_count_def be_lock_clipboard_message_def
        be_find_clipboard_data_def Let_def split: sum.splits)
  have owner: "be_clipboard_owner_p s2 cid = be_clipboard_owner_p s cid"
    if "get_clipboard_object s2 cid = get_clipboard_object s cid"
      and "stored_count s2 cid = stored_count s cid"
    using that
    by (cases cid)
      (simp_all add: primary_owner_p_def secondary_owner_p_def clipboard_owner_p_def)
  show ?thesis
    using assms find same owner by (simp add: set_object)
qed

theorem clipboards_disjoint_example:
  "CLIPBOARD_SECONDARY \<noteq> CLIPBOARD_PRIMARY
   \<and> get_clipboard_object
        (be_set_clipboard_data example_state CLIPBOARD_PRIMARY ''text/plain''
           (Some ''hello'') 5 True) CLIPBOARD_SECONDARY = fresh_clipboard 5
   \<and> stored_count
        (be_set_clipboard_data example_state CLIPBOARD_PRIMARY ''text/plain''
           (Some ''hello'') 5 True) CLIPBOARD_SECONDARY = - 1
   \<and> \<not> owned
        (be_set_clipboard_data example_state CLIPBOARD_PRIMARY ''text/plain''
           (Some ''hello'') 5 True) CLIPBOARD_SECONDARY"
proof -
  have ne: "CLIPBOARD_SECONDARY \<noteq> CLIPBOARD_PRIMARY"
    by simp
  have before: "get_clipboard_object example_state CLIPBOARD_SECONDARY = fresh_clipboard 5"
    "stored_count example_state CLIPBOARD_SECONDARY = - 1"
    "\<not> owned example_state CLIPBOARD_SECONDARY"
    by (simp_all add: example_state_def initial_state_def)
  show ?thesis
    using clipboards_disjoint [OF ne, of example_state "fresh_clipboard 0" "''text/plain''"
        "Some ''hello''" 5 True None True None "(None, 0)" True example_state] before
    by simp
qed

section \<open>Change counters along a run\<close>

text \<open>
  C5: for every clipboard identifier, \<open>be_update_clipboard_count\<close> sets the stored counter
  of that clipboard to the system count the clipboard has now and sets its owned flag.
  Hence, in every run from there on in which no native change lowers a system count, the
  stored counter of that clipboard never goes down from one state to a later one. The
  same holds for any clipboard from any state whose stored counter is not above the
  system count.
\<close>

theorem be_update_clipboard_count_monotone:
  "stored_count (be_update_clipboard_count s cid) cid = SystemCount (get_clipboard_object s cid)
   \<and> owned (be_update_clipboard_count s cid) cid
   \<and> (never_decreases (be_update_clipboard_count s cid) es \<longrightarrow>
        sorted_wrt (\<lambda>a b. sint (stored_count a cid) \<le> sint (stored_count b cid))
          (states (be_update_clipboard_count s cid) es))
   \<and> (sint (stored_count s c) \<le> sint (SystemCount (get_clipboard_object s c))
        \<and> never_decreases s es \<longrightarrow>
        sorted_wrt (\<lambda>a b. sint (stored_count a c) \<le> sint (stored_count b c)) (states s es))"
proof -
  have "sint (stored_count (be_update_clipboard_count s cid) cid)
          \<le> sint (SystemCount (get_clipboard_object (be_update_clipboard_count s cid) cid))"
    by simp
  then have "never_decreases (be_update_clipboard_count s cid) es \<Longrightarrow>
        sorted_wrt (\<lambda>a b. sint (stored_count a cid) \<le> sint (stored_count b cid))
          (states (be_update_clipboard_count s cid) es)"
    by (rule states_sorted)
  then show ?thesis
    using states_sorted [of s c es] by simp
qed

lemma example_run_states:
  "map (\<lambda>a. stored_count a CLIPBOARD_PRIMARY)
     (states (be_update_clipboard_count example_state CLIPBOARD_PRIMARY) example_run)
     = [3, 3, 4, 4]"
  by (simp add: example_run_def example_state_def initial_state_def fresh_clipboard_def
      native_def be_handle_clipboard_changed_message_def Let_def
      haiku_selection_disowned_def)

lemma example_run_never_decreases:
  "never_decreases (be_update_clipboard_count example_state CLIPBOARD_PRIMARY) example_run"
  "never_decreases example_state example_run"
  by (simp_all add: example_run_def example_state_def initial_state_def fresh_clipboard_def
      native_def be_handle_clipboard_changed_message_def Let_def
      haiku_selection_disowned_def)

lemma example_state_below:
  "sint (stored_count example_state CLIPBOARD_PRIMARY)
     \<le> sint (SystemCount (get_clipboard_object example_state CLIPBOARD_PRIMARY))"
  by (simp add: example_state_def initial_state_def fresh_clipboard_def)

theorem be_update_clipboard_count_example:
  "never_decreases (be_update_clipboard_count example_state CLIPBOARD_PRIMARY) example_run
   \<and> sorted_wrt (\<lambda>a b. sint (stored_count a CLIPBOARD_PRIMARY)
                      \<le> sint (stored_count b CLIPBOARD_PRIMARY))
       (states (be_update_clipboard_count example_state CLIPBOARD_PRIMARY) example_run)
   \<and> map (\<lambda>a. stored_count a CLIPBOARD_PRIMARY)
       (states (be_update_clipboard_count example_state CLIPBOARD_PRIMARY) example_run)
       = [3, 3, 4, 4]
   \<and> never_decreases example_state example_run
   \<and> sorted_wrt (\<lambda>a b. sint (stored_count a CLIPBOARD_PRIMARY)
                      \<le> sint (stored_count b CLIPBOARD_PRIMARY))
       (states example_state example_run)"
  using be_update_clipboard_count_monotone [of example_state CLIPBOARD_PRIMARY example_run
      CLIPBOARD_PRIMARY]
    example_run_never_decreases example_run_states example_state_below
  by blast

text \<open>
  C10: start in the initial state (every counter \<open>-1\<close>, every owned flag clear) and run
  any events that never call \<open>be_update_clipboard_count\<close> or \<open>be_set_clipboard_data\<close> for
  clipboard \<open>cid\<close>. In every state of the run the counter of \<open>cid\<close> is still \<open>-1\<close> and
  its flag still clear; \<open>be_clipboard_owner_p\<close> is false for it;
  \<open>be_handle_clipboard_changed_message\<close> has not disowned it and does not disown it now;
  \<open>be_selection_outdated_p\<close> is false for it for every count from \<open>-1\<close> upwards. In any
  state whatever, \<open>be_handle_clipboard_changed_message\<close> sets no owned flag, and an event
  after which a flag is set that was clear before is one of the two calls named.
\<close>

theorem untouched_clipboard_never_owned:
  assumes "\<forall>e\<in>set es. \<not> updates_count e cid"
    and "s \<in> set (states (initial_state p sec sys t bitmaps) es)"
  shows "stored_count s cid = - 1
    \<and> \<not> owned s cid
    \<and> \<not> be_clipboard_owner_p s cid
    \<and> \<not> externally_changed s cid
    \<and> owned (be_handle_clipboard_changed_message s) cid = owned s cid
    \<and> (\<forall>n. (cid, n) \<notin> set (selection_disowned s))
    \<and> (\<forall>n. (cid, n) \<notin> set (selection_disowned (be_handle_clipboard_changed_message s)))
    \<and> (\<forall>count. - 1 \<le> sint count \<longrightarrow> \<not> be_selection_outdated_p s cid count)
    \<and> (\<forall>s0. owned (be_handle_clipboard_changed_message s0) cid \<longrightarrow> owned s0 cid)
    \<and> (\<forall>s0 e s1. step s0 e = Inr s1 \<and> owned s1 cid \<and> \<not> owned s0 cid \<longrightarrow> updates_count e cid)"
proof -
  let ?i = "initial_state p sec sys t bitmaps"
  have i: "stored_count ?i cid = - 1" "\<not> owned ?i cid"
    "\<forall>n. (cid, n) \<notin> set (selection_disowned ?i)"
    by (cases cid; simp add: initial_state_def)+
  from states_untouched [OF assms(1) i assms(2)]
  have c: "stored_count s cid = - 1" and o: "\<not> owned s cid"
    and d: "\<forall>n. (cid, n) \<notin> set (selection_disowned s)"
    by simp_all
  have x: "\<not> externally_changed s cid"
    using c by (simp add: externally_changed_def)
  have p: "\<not> be_clipboard_owner_p s cid"
    using c by (cases cid)
      (simp_all add: primary_owner_p_def secondary_owner_p_def clipboard_owner_p_def)
  have h: "\<forall>n. (cid, n) \<notin> set (selection_disowned (be_handle_clipboard_changed_message s))"
    using d x by (simp add: handle_disowned_mem)
  have u: "\<forall>count. - 1 \<le> sint count \<longrightarrow> \<not> be_selection_outdated_p s cid count"
    using c by (cases cid) (simp_all add: be_selection_outdated_p_def)
  have g: "\<forall>s0. owned (be_handle_clipboard_changed_message s0) cid \<longrightarrow> owned s0 cid"
    by (simp add: handle_owned)
  have e: "\<forall>s0 e s1. step s0 e = Inr s1 \<and> owned s1 cid \<and> \<not> owned s0 cid
             \<longrightarrow> updates_count e cid"
    using step_owned by blast
  show ?thesis
    using c o p x h d u g e by (simp add: handle_owned)
qed

lemma other_run_untouched:
  "list_all (\<lambda>e. \<not> updates_count e CLIPBOARD_CLIPBOARD) other_run"
  by (simp add: other_run_def)

theorem untouched_clipboard_example:
  "list_all (\<lambda>e. \<not> updates_count e CLIPBOARD_CLIPBOARD) other_run
   \<and> stored_count (last (states example_state other_run)) CLIPBOARD_CLIPBOARD = - 1
   \<and> \<not> owned (last (states example_state other_run)) CLIPBOARD_CLIPBOARD
   \<and> \<not> be_clipboard_owner_p (last (states example_state other_run)) CLIPBOARD_CLIPBOARD
   \<and> \<not> be_selection_outdated_p (last (states example_state other_run)) CLIPBOARD_CLIPBOARD 0"
proof -
  have a: "\<forall>e\<in>set other_run. \<not> updates_count e CLIPBOARD_CLIPBOARD"
    using other_run_untouched by (simp add: list_all_iff)
  have b: "last (states example_state other_run)
             \<in> set (states (initial_state (fresh_clipboard 3) (fresh_clipboard 5)
                               (fresh_clipboard 7) 42 (\<lambda>f. None)) other_run)"
    unfolding example_state_def by (rule last_in_set) simp
  show ?thesis
    using untouched_clipboard_never_owned [OF a b] other_run_untouched by simp
qed

section \<open>Identifiers of notifications, as returned\<close>

text \<open>
  C7, as it is stated, promises an identifier for every call. The function first maps its
  \<open>type\<close> argument with \<open>type_for_type\<close>, which ends in \<open>abort ()\<close> for a value other
  than 0, 1 and 2: with type 3 nothing is returned, whatever \<open>supersedes\<close> is.
\<close>

theorem be_display_notification_aborts:
  "be_display_notification example_state ''Mail'' ''Read'' 1 3 None = Inl Abort"
  by (simp add: be_display_notification_def)

text \<open>
  C7, amended: for a type among 0, 1 and 2, \<open>be_display_notification\<close> returns the
  identifier under which the notification is sent. With \<open>supersedes\<close> not negative that
  is \<open>supersedes\<close> itself, and \<open>last_notification_id\<close> keeps its value. With \<open>supersedes\<close>
  negative \<open>last_notification_id\<close> is increased by one and its new value is returned. So
  for calls made one after the other, the identifiers returned to those with negative
  \<open>supersedes\<close> are strictly increasing, as long as \<open>last_notification_id\<close> does not
  overflow.
\<close>

theorem be_display_notification_identifier:
  assumes "type = 0 \<or> type = 1 \<or> type = 2"
  shows "(0 \<le> sint supersedes \<longrightarrow>
            be_display_notification s title body supersedes type icon =
              Inr (supersedes,
                   s\<lparr>notifications := notifications s
                        @ [sent s title body type icon supersedes]\<rparr>))
    \<and> (sint supersedes < 0 \<longrightarrow>
            be_display_notification s title body supersedes type icon =
              Inr (last_notification_id s + 1,
                   s\<lparr>last_notification_id := last_notification_id s + 1,
                     notifications := notifications s
                        @ [sent s title body type icon (last_notification_id s + 1)]\<rparr>))
    \<and> (sint supersedes < 0 \<and> sint (last_notification_id s) < 2 ^ 63 - 1 \<longrightarrow>
            sint (last_notification_id s + 1) = sint (last_notification_id s) + 1)
    \<and> ((\<forall>c\<in>set cs. type_of c = 0 \<or> type_of c = 1 \<or> type_of c = 2)
         \<and> sint (last_notification_id s) + int (fresh_calls cs) < 2 ^ 63 \<longrightarrow>
         (\<exists>ids s1. be_display_notifications s cs = Inr (ids, s1)
            \<and> length ids = length cs
            \<and> sint (last_notification_id s1)
                = sint (last_notification_id s) + int (fresh_calls cs)
            \<and> (\<forall>i\<in>set (allocated cs ids). sint (last_notification_id s) < sint i)
            \<and> sorted_wrt (\<lambda>a b. sint a < sint b) (allocated cs ids)))"
  using display_supersedes [OF assms] display_fresh [OF assms] display_all [of cs s]
    sint_plus_one [of "last_notification_id s"]
  by blast

lemma example_calls_ids:
  "map_sum id fst (be_display_notifications example_state example_calls) = Inr [1, 1, 2]"
  by (simp add: example_calls_def example_state_def initial_state_def
      be_display_notification_def my_team_id_def Let_def)

theorem be_display_notification_example:
  "list_all (\<lambda>c. type_of c = 0 \<or> type_of c = 1 \<or> type_of c = 2) example_calls
   \<and> sint (last_notification_id example_state) + int (fresh_calls example_calls) < 2 ^ 63
   \<and> map_sum id fst (be_display_notifications example_state example_calls) = Inr [1, 1, 2]
   \<and> (\<exists>ids s1. be_display_notifications example_state example_calls = Inr (ids, s1)
         \<and> sorted_wrt (\<lambda>a b. sint a < sint b) (allocated example_calls ids))
   \<and> map_sum id fst (be_display_notification example_state ''Mail'' ''Read'' 1 (0::int32) None)
       = Inr 1"
proof -
  have ty: "(0::int32) = 0 \<or> (0::int32) = 1 \<or> (0::int32) = 2"
    by simp
  have a: "\<forall>c\<in>set example_calls. type_of c = 0 \<or> type_of c = 1 \<or> type_of c = 2"
    by (simp add: example_calls_def)
  have b: "sint (last_notification_id example_state) + int (fresh_calls example_calls) < 2 ^ 63"
    by (simp add: example_calls_def fresh_calls_def example_state_def initial_state_def)
  note th = be_display_notification_identifier [OF ty, of 1 example_state "''Mail''" "''Read''"
      None example_calls]
  have one: "map_sum id fst (be_display_notification example_state ''Mail'' ''Read'' 1 0 None)
       = Inr 1"
    using th by simp
  have many: "\<exists>ids s1. be_display_notifications example_state example_calls = Inr (ids, s1)
         \<and> sorted_wrt (\<lambda>a b. sint a < sint b) (allocated example_calls ids)"
    using th a b by blast
  show ?thesis
    using a b one many example_calls_ids by (simp add: list_all_iff)
qed

section \<open>Status codes of the message accessors\<close>

text \<open>
  C4, as it is stated, fails for \<open>be_get_message_data\<close>: the function hands its two
  output pointers to \<open>FindData\<close>, so they hold what \<open>FindData\<close> stored also when it
  fails. On a message without the field asked for, \<open>FindData\<close> stores the null pointer
  where the address was to go (\<open>be_find_clipboard_data_1\<close> depends on exactly that):
  \<open>be_get_message_data\<close> returns 1 and the caller's buffer pointer, which pointed to
  \<open>old\<close>, is null.
\<close>

theorem be_get_message_data_stores_on_failure:
  "be_get_message_data empty_message ''text/plain'' B_MIME_TYPE 0 (Some ''old'') 3
     = (1, None, 3)"
  by (simp add: be_get_message_data_def empty_message_def)

text \<open>
  C4, amended: each of the eight accessors returns 0 when every native call it makes
  returns \<open>B_OK\<close> and 1 when one of them does not. What an accessor stores itself (\<open>tc\<close>
  and \<open>name_return\<close> of \<open>be_enum_message\<close>, \<open>path_buffer\<close> of \<open>be_get_refs_data\<close>, \<open>x\<close>
  and \<open>y\<close> of \<open>be_get_point_data\<close>) it stores on the 0 path only. A pointer it passes on
  to the native call (\<open>count\<close> of \<open>be_enum_message\<close>, \<open>buf_return\<close> and \<open>size_return\<close>
  of \<open>be_get_message_data\<close>) holds afterwards what that call stored through it, on
  either path.
\<close>

theorem accessors_translate_status:
  "(case be_enum_message msg tc index count name_return of
      (ret, tc1, count1, name1) \<Rightarrow>
        ret = (if gi_rc (GetInfo msg B_ANY_TYPE index) = B_OK then 0 else 1)
        \<and> (ret \<noteq> 0 \<longrightarrow> tc1 = tc \<and> name1 = name_return)
        \<and> (ret = 0 \<longrightarrow> tc1 = gi_type (GetInfo msg B_ANY_TYPE index)
                      \<and> name1 = gi_name (GetInfo msg B_ANY_TYPE index))
        \<and> count1 = stored (gi_count (GetInfo msg B_ANY_TYPE index)) count)
   \<and> (case be_get_refs_data fs msg name index path_buffer of
        (ret, path1) \<Rightarrow>
          ret = (if fst (FindRef msg name index) = B_OK
                    \<and> SetTo fs (snd (FindRef msg name index)) = B_OK
                    \<and> fst (GetPath fs (snd (FindRef msg name index))) = B_OK
                 then 0 else 1)
          \<and> (ret \<noteq> 0 \<longrightarrow> path1 = path_buffer)
          \<and> (ret = 0 \<longrightarrow> path1 = snd (GetPath fs (snd (FindRef msg name index)))))
   \<and> (case be_get_point_data msg name index x y of
        (ret, x1, y1) \<Rightarrow>
          ret = (if fst (FindPoint msg name index) = B_OK then 0 else 1)
          \<and> (ret \<noteq> 0 \<longrightarrow> x1 = x \<and> y1 = y)
          \<and> (ret = 0 \<longrightarrow> BPoint x1 y1 = snd (FindPoint msg name index)))
   \<and> (case be_get_message_data msg name type_code index buf_return size_return of
        (ret, buf1, size1) \<Rightarrow>
          ret = (if fd_rc (FindData msg name type_code index) = B_OK then 0 else 1)
          \<and> buf1 = stored (fd_data (FindData msg name type_code index)) buf_return
          \<and> size1 = stored (fd_numBytes (FindData msg name type_code index)) size_return)
   \<and> fst (be_add_message_data msg name type_code buf buf_size)
       = (if AddData msg name type_code buf buf_size = B_OK then 0 else 1)
   \<and> fst (be_add_refs_data fs msg name filename)
       = (if InitCheck fs filename = B_OK
             \<and> fst (GetRef fs filename) = B_OK
             \<and> AddRef msg name (snd (GetRef fs filename)) = B_OK
          then 0 else 1)
   \<and> fst (be_add_point_data msg name x y)
       = (if AddPoint msg name (BPoint x y) = B_OK then 0 else 1)
   \<and> fst (be_add_message_message msg name data)
       = (if AddMessage msg name = B_OK then 0 else 1)"
proof -
  have enum: "case be_enum_message msg tc index count name_return of
      (ret, tc1, count1, name1) \<Rightarrow>
        ret = (if gi_rc (GetInfo msg B_ANY_TYPE index) = B_OK then 0 else 1)
        \<and> (ret \<noteq> 0 \<longrightarrow> tc1 = tc \<and> name1 = name_return)
        \<and> (ret = 0 \<longrightarrow> tc1 = gi_type (GetInfo msg B_ANY_TYPE index)
                      \<and> name1 = gi_name (GetInfo msg B_ANY_TYPE index))
        \<and> count1 = stored (gi_count (GetInfo msg B_ANY_TYPE index)) count"
    by (simp add: be_enum_message_def Let_def)
  have refs: "case be_get_refs_data fs msg name index path_buffer of
        (ret, path1) \<Rightarrow>
          ret = (if fst (FindRef msg name index) = B_OK
                    \<and> SetTo fs (snd (FindRef msg name index)) = B_OK
                    \<and> fst (GetPath fs (snd (FindRef msg name index))) = B_OK
                 then 0 else 1)
          \<and> (ret \<noteq> 0 \<longrightarrow> path1 = path_buffer)
          \<and> (ret = 0 \<longrightarrow> path1 = snd (GetPath fs (snd (FindRef msg name index))))"
    by (simp add: be_get_refs_data_def split: prod.splits)
  have point: "case be_get_point_data msg name index x y of
        (ret, x1, y1) \<Rightarrow>
          ret = (if fst (FindPoint msg name index) = B_OK then 0 else 1)
          \<and> (ret \<noteq> 0 \<longrightarrow> x1 = x \<and> y1 = y)
          \<and> (ret = 0 \<longrightarrow> BPoint x1 y1 = snd (FindPoint msg name index))"
    by (simp add: be_get_point_data_def split: prod.splits BPoint.splits)
  have data: "case be_get_message_data msg name type_code index buf_return size_return of
        (ret, buf1, size1) \<Rightarrow>
          ret = (if fd_rc (FindData msg name type_code index) = B_OK then 0 else 1)
          \<and> buf1 = stored (fd_data (FindData msg name type_code index)) buf_return
          \<and> size1 = stored (fd_numBytes (FindData msg name type_code index)) size_return"
    by (simp add: be_get_message_data_def Let_def)
  have add: "fst (be_add_message_data msg name type_code buf buf_size)
       = (if AddData msg name type_code buf buf_size = B_OK then 0 else 1)"
    by (simp add: be_add_message_data_def)
  have addrefs: "fst (be_add_refs_data fs msg name filename)
       = (if InitCheck fs filename = B_OK
             \<and> fst (GetRef fs filename) = B_OK
             \<and> AddRef msg name (snd (GetRef fs filename)) = B_OK
          then 0 else 1)"
    by (simp add: be_add_refs_data_def split: prod.splits)
  have addpoint: "fst (be_add_point_data msg name x y)
       = (if AddPoint msg name (BPoint x y) = B_OK then 0 else 1)"
    by (simp add: be_add_point_data_def)
  have addmsg: "fst (be_add_message_message msg name data)
       = (if AddMessage msg name = B_OK then 0 else 1)"
    by (simp add: be_add_message_message_def)
  show ?thesis
    using enum refs point data add addrefs addpoint addmsg by blast
qed

theorem accessors_example:
  "be_enum_message text_message 0 0 0 [] = (0, B_MIME_TYPE, 1, ''text/plain'')
   \<and> be_enum_message empty_message 9 0 8 ''old'' = (1, 9, 8, ''old'')
   \<and> be_get_refs_data example_storage text_message ''item'' 0 ''old''
       = (0, ''/boot/home/notes'')
   \<and> be_get_refs_data example_storage empty_message ''item'' 0 ''old'' = (1, ''old'')
   \<and> be_get_point_data text_message ''item'' 0 1 2 = (0, 10, 20)
   \<and> be_get_point_data empty_message ''item'' 0 1 2 = (1, 1, 2)
   \<and> be_get_message_data text_message ''item'' B_MIME_TYPE 0 None 0
       = (0, Some ''hello'', 5)
   \<and> fst (be_add_message_data empty_message ''item'' B_MIME_TYPE (Some ''hello'') 5) = 0
   \<and> fst (be_add_refs_data example_storage empty_message ''item'' ''/boot/home/notes'') = 0
   \<and> fst (be_add_refs_data example_storage empty_message ''item'' ''/nowhere'') = 1
   \<and> fst (be_add_point_data empty_message ''item'' 1 2) = 0
   \<and> fst (be_add_message_message empty_message ''item'' text_message) = 0"
proof -
  note a = accessors_translate_status [where msg = text_message and tc = 0 and index = 0
      and count = 0 and name_return = "[]" and fs = example_storage and name = "''item''"
      and path_buffer = "''old''" and x = 1 and y = 2 and type_code = B_MIME_TYPE
      and buf_return = None and size_return = 0 and buf = "Some ''hello''" and buf_size = 5
      and filename = "''/boot/home/notes''" and data = text_message]
  note b = accessors_translate_status [where msg = empty_message and tc = 9 and index = 0
      and count = 8 and name_return = "''old''" and fs = example_storage and name = "''item''"
      and path_buffer = "''old''" and x = 1 and y = 2 and type_code = B_MIME_TYPE
      and buf_return = None and size_return = 0 and buf = "Some ''hello''" and buf_size = 5
      and filename = "''/nowhere''" and data = text_message]
  note c = accessors_translate_status [where msg = empty_message and tc = 9 and index = 0
      and count = 8 and name_return = "''old''" and fs = example_storage and name = "''item''"
      and path_buffer = "''old''" and x = 1 and y = 2 and type_code = B_MIME_TYPE
      and buf_return = None and size_return = 0 and buf = "Some ''hello''" and buf_size = 5
      and filename = "''/boot/home/notes''" and data = text_message]
  have t: "be_enum_message text_message 0 0 0 [] = (0, B_MIME_TYPE, 1, ''text/plain'')"
    "be_get_refs_data example_storage text_message ''item'' 0 ''old''
       = (0, ''/boot/home/notes'')"
    "be_get_point_data text_message ''item'' 0 1 2 = (0, 10, 20)"
    "be_get_message_data text_message ''item'' B_MIME_TYPE 0 None 0
       = (0, Some ''hello'', 5)"
    using a by (auto simp: text_message_def empty_message_def example_storage_def
        split: prod.splits)
  have e: "be_enum_message empty_message 9 0 8 ''old'' = (1, 9, 8, ''old'')"
    "be_get_refs_data example_storage empty_message ''item'' 0 ''old'' = (1, ''old'')"
    "be_get_point_data empty_message ''item'' 0 1 2 = (1, 1, 2)"
    using b by (auto simp: empty_message_def example_storage_def split: prod.splits)
  have r: "fst (be_add_message_data empty_message ''item'' B_MIME_TYPE (Some ''hello'') 5) = 0"
    "fst (be_add_refs_data example_storage empty_message ''item'' ''/boot/home/notes'') = 0"
    "fst (be_add_refs_data example_storage empty_message ''item'' ''/nowhere'') = 1"
    "fst (be_add_point_data empty_message ''item'' 1 2) = 0"
    "fst (be_add_message_message empty_message ''item'' text_message) = 0"
    using b [THEN conjunct2, THEN conjunct2, THEN conjunct2, THEN conjunct2]
      c [THEN conjunct2, THEN conjunct2, THEN conjunct2, THEN conjunct2]
    by (simp_all add: empty_message_def example_storage_def)
  show ?thesis
    using t e r by simp
qed

end
